theory Spec2Isabelle
  imports Complex_Main "HOL-Library.Word" "HOL-Library.Monad_Syntax"
begin

section \<open>GPS time (GPS.h, struct GPS_Time)\<close>

text \<open>
  The template parameter \<open>FloatT\<close> (\<open>double\<close> by default) is modelled by \<open>real\<close>:
  the development is about the control flow and the exact arithmetic of the code, not about
  rounding. \<open>int\<close> fields are modelled by \<open>int\<close>; where the code mixes \<open>int\<close> and
  \<open>unsigned int\<close> in one expression the 32-bit wrap-around is written out with
  \<open>32 word\<close>.
\<close>

record GPS_Time =
  week :: int
  seconds :: real

definition seconds_day :: nat where
  "seconds_day = 60 * 60 * 24"

definition seconds_week :: nat where
  "seconds_week = (60 * 60 * 24) * 7"

text \<open>
  \<open>seconds_week * quot\<close> in \<open>canonicalize\<close> multiplies the \<open>unsigned int\<close> constant
  \<open>seconds_week\<close> with the \<open>int\<close> variable \<open>quot\<close>. By the usual arithmetic conversions
  \<open>quot\<close> is converted to \<open>unsigned int\<close>, the product is computed modulo \<open>2 ^ 32\<close>, and
  that unsigned value is what is converted to \<open>float_t\<close> and subtracted from \<open>seconds\<close>.
\<close>

definition seconds_week_times :: "int \<Rightarrow> real" where
  "seconds_week_times quot =
     real (unat ((word_of_nat seconds_week :: 32 word) * (word_of_int quot :: 32 word)))"

definition canonicalize :: "GPS_Time \<Rightarrow> GPS_Time" where
  "canonicalize t =
     (let quot = \<lfloor>seconds t / real seconds_week\<rfloor>
      in \<lparr>week = week t + quot, seconds = seconds t - seconds_week_times quot\<rparr>)"

definition serialize :: "GPS_Time \<Rightarrow> real" where
  "serialize t = seconds t + real seconds_week * real_of_int (week t)"

text \<open>\<open>operator+=(sec)\<close>, \<open>operator-=(sec)\<close>, \<open>operator+(sec)\<close>, \<open>operator-(sec)\<close>.\<close>

definition plus_assign :: "GPS_Time \<Rightarrow> real \<Rightarrow> GPS_Time" where
  "plus_assign t sec = canonicalize (t\<lparr>seconds := seconds t + sec\<rparr>)"

definition minus_assign :: "GPS_Time \<Rightarrow> real \<Rightarrow> GPS_Time" where
  "minus_assign t sec = plus_assign t (- sec)"

definition plus_sec :: "GPS_Time \<Rightarrow> real \<Rightarrow> GPS_Time" where
  "plus_sec t sec = plus_assign t sec"

definition minus_sec :: "GPS_Time \<Rightarrow> real \<Rightarrow> GPS_Time" where
  "minus_sec t sec = plus_sec t (- sec)"

text \<open>\<open>float_t operator-(const GPS_Time &t) const\<close>: the interval in seconds.\<close>

definition minus_time :: "GPS_Time \<Rightarrow> GPS_Time \<Rightarrow> real" where
  "minus_time self t =
     (let res = seconds self - seconds t
      in res + (real_of_int (week self) - real_of_int (week t)) * real seconds_week)"

text \<open>
  \<open>interval(t_week, t_seconds)\<close>: positive when the argument is later than \<open>self\<close>.
  The week argument is an \<open>unsigned int\<close>.
\<close>

definition interval :: "GPS_Time \<Rightarrow> nat \<Rightarrow> real \<Rightarrow> real" where
  "interval self t_week t_seconds =
     t_seconds - seconds self + (real t_week - real_of_int (week self)) * real seconds_week"

section \<open>Broadcast ephemeris (GPS.h, struct Ephemeris)\<close>

text \<open>The field \<open>e\<close> (eccentricity) is written \<open>ecc\<close>.\<close>

record Ephemeris =
  svid :: nat
  WN :: nat
  URA :: int
  SV_health :: nat
  iodc :: int
  t_GD :: real
  t_oc :: real
  a_f2 :: real
  a_f1 :: real
  a_f0 :: real
  iode :: int
  c_rs :: real
  delta_n :: real
  M0 :: real
  c_uc :: real
  ecc :: real
  c_us :: real
  sqrt_A :: real
  t_oe :: real
  fit_interval :: real
  c_ic :: real
  Omega0 :: real
  c_is :: real
  i0 :: real
  c_rc :: real
  omega :: real
  dot_Omega0 :: real
  dot_i0 :: real

definition period_from_time_of_clock :: "Ephemeris \<Rightarrow> GPS_Time \<Rightarrow> real" where
  "period_from_time_of_clock eph t = - interval t (WN eph) (t_oc eph)"

definition period_from_time_of_ephemeris :: "Ephemeris \<Rightarrow> GPS_Time \<Rightarrow> real" where
  "period_from_time_of_ephemeris eph t = - interval t (WN eph) (t_oe eph)"

definition period_from_first_valid_transmittion :: "Ephemeris \<Rightarrow> GPS_Time \<Rightarrow> real" where
  "period_from_first_valid_transmittion eph t =
     period_from_time_of_clock eph t + (fit_interval eph / 2)"

definition is_valid :: "Ephemeris \<Rightarrow> GPS_Time \<Rightarrow> bool" where
  "is_valid eph t \<longleftrightarrow> \<bar>period_from_time_of_clock eph t\<bar> \<le> (fit_interval eph / 2)"

definition maybe_better_one_avilable :: "Ephemeris \<Rightarrow> GPS_Time \<Rightarrow> bool" where
  "maybe_better_one_avilable eph t =
     (let delta_t = period_from_first_valid_transmittion eph t;
          transmittion_interval =
            (if fit_interval eph > 4 * 60 * 60 then fit_interval eph / 2 else 1 * 60 * 60)
      in \<not> (delta_t \<ge> 0 \<and> delta_t < transmittion_interval))"

definition base_time :: "Ephemeris \<Rightarrow> GPS_Time" where
  "base_time eph = \<lparr>week = int (WN eph), seconds = t_oc eph\<rparr>"

section \<open>Ephemeris history and satellite (GPS.h, PropertyHistory and Satellite)\<close>

text \<open>
  \<open>item_t\<close> derives from the property type and adds a priority and a time tag; the
  base class is the field \<open>property\<close> here.
\<close>

record item_t =
  property :: Ephemeris
  priority :: int
  t_tag :: int

definition INT_MAX :: int where
  "INT_MAX = 2147483647"

definition INT_MIN :: int where
  "INT_MIN = - 2147483648"

definition TimeQuantization :: int where
  "TimeQuantization = 10"

definition calc_t_tag :: "real \<Rightarrow> int" where
  "calc_t_tag t =
     (let res = \<lfloor>(t + (0.5 * real_of_int TimeQuantization)) / real_of_int TimeQuantization\<rfloor>
      in if res \<ge> INT_MAX then INT_MAX
         else if res \<le> INT_MIN then INT_MIN
         else res)"

definition calc_t_tag_time :: "GPS_Time \<Rightarrow> int" where
  "calc_t_tag_time t = calc_t_tag (serialize t)"

record PropertyHistory =
  history :: "item_t list"
  selected_index :: nat


definition current :: "PropertyHistory \<Rightarrow> Ephemeris" where
  "current ph = property (history ph ! selected_index ph)"

text \<open>
  The body of the \<open>for\<close> loop of \<open>select\<close>, run over the indices \<open>it .. it_last\<close>; the
  loop state is \<open>(changed, t_tag, delta_t, selected_index)\<close>. The member-function pointers
  \<open>is_valid\<close> and \<open>get_delta_t\<close> are function arguments; \<open>get_delta_t\<close> may be \<open>NULL\<close>.
\<close>

fun select_loop ::
  "GPS_Time \<Rightarrow> (Ephemeris \<Rightarrow> GPS_Time \<Rightarrow> bool) \<Rightarrow> (Ephemeris \<Rightarrow> GPS_Time \<Rightarrow> real) option
     \<Rightarrow> item_t list \<Rightarrow> nat list \<Rightarrow> bool \<times> int \<times> real \<times> nat \<Rightarrow> bool \<times> int \<times> real \<times> nat"
where
  "select_loop target_time valid get_delta_t h [] st = st"
| "select_loop target_time valid get_delta_t h (i # idxs) (changed, tag, delta_t, sel) =
     (let it = h ! i in
      if changed \<and> tag = t_tag it
        then select_loop target_time valid get_delta_t h idxs (changed, tag, delta_t, sel)
      else if \<not> valid (property it) target_time
        then select_loop target_time valid get_delta_t h idxs (changed, tag, delta_t, sel)
      else
        let delta_t2 = (case get_delta_t of
                          Some f \<Rightarrow> f (property it) target_time
                        | None \<Rightarrow> real_of_int (calc_t_tag_time target_time - t_tag it));
            delta_t2 = (if delta_t2 < 0 then delta_t2 * (- 1) else delta_t2)
        in if delta_t > delta_t2
             then select_loop target_time valid get_delta_t h idxs (True, t_tag it, delta_t2, i)
             else select_loop target_time valid get_delta_t h idxs (changed, tag, delta_t, sel))"

definition select ::
  "GPS_Time \<Rightarrow> (Ephemeris \<Rightarrow> GPS_Time \<Rightarrow> bool) \<Rightarrow> (Ephemeris \<Rightarrow> GPS_Time \<Rightarrow> real) option
     \<Rightarrow> PropertyHistory \<Rightarrow> bool \<times> PropertyHistory"
where
  "select target_time valid get_delta_t ph =
     (let it_selected = history ph ! selected_index ph;
          tag = t_tag it_selected;
          t_tag_target = calc_t_tag_time target_time;
          delta_t = (case get_delta_t of
                       Some f \<Rightarrow> f (property it_selected) target_time
                     | None \<Rightarrow> real_of_int (t_tag_target - tag));
          (idxs, delta_t) =
            (if delta_t \<ge> 0
               then ([selected_index ph + 1 ..< length (history ph)], delta_t)
               else ([0 ..< selected_index ph], delta_t * (- 1)));
          (changed, tag, delta_t, sel) =
            select_loop target_time valid get_delta_t (history ph) idxs
              (False, tag, delta_t, selected_index ph)
      in (changed, ph\<lparr>selected_index := sel\<rparr>))"


record Satellite =
  eph_history :: PropertyHistory

text \<open>
  \<open>PropertyHistory()\<close> creates one default item (priority 0, time tag 0) and selects it;
  \<open>Satellite()\<close> then marks that first ephemeris as invalid. The other fields of the
  default-constructed ephemeris are not initialised by the code: \<open>eph0\<close> stands for
  whatever they hold.
\<close>

definition PropertyHistory_init :: "Ephemeris \<Rightarrow> PropertyHistory" where
  "PropertyHistory_init eph0 =
     \<lparr>history = [\<lparr>property = eph0, priority = 0, t_tag = 0\<rparr>], selected_index = 0\<rparr>"

definition Satellite_init :: "Ephemeris \<Rightarrow> Satellite" where
  "Satellite_init eph0 =
     (let ph = PropertyHistory_init eph0;
          eph_current = (current ph)\<lparr>WN := 0, t_oc := 0, t_oe := 0, fit_interval := - 1\<rparr>
      in \<lparr>eph_history =
            ph\<lparr>history := (history ph)[selected_index ph :=
                   (history ph ! selected_index ph)\<lparr>property := eph_current\<rparr>]\<rparr>\<rparr>)"

definition ephemeris :: "Satellite \<Rightarrow> Ephemeris" where
  "ephemeris sat = current (eph_history sat)"

definition select_ephemeris :: "GPS_Time \<Rightarrow> Satellite \<Rightarrow> bool \<times> Satellite" where
  "select_ephemeris target_time sat =
     (let valid = is_valid (ephemeris sat) target_time in
      if valid \<and> \<not> maybe_better_one_avilable (ephemeris sat) target_time
        then (True, sat)
      else
        let (changed, ph) =
              select target_time is_valid (Some period_from_first_valid_transmittion)
                (eph_history sat)
        in (changed \<or> valid, sat\<lparr>eph_history := ph\<rparr>))"

section \<open>Kepler's equation (GPS.h, Ephemeris::eccentric_anomaly)\<close>

definition KEPLER_DELTA_LIMIT :: real where
  "KEPLER_DELTA_LIMIT = 1 / 10 ^ 12"

definition pow3 :: "real \<Rightarrow> real" where
  "pow3 x = x * x * x"

text \<open>One evaluation of \<open>Ek2(Mk + e * sin(Ek))\<close>.\<close>

definition kepler_step :: "real \<Rightarrow> real \<Rightarrow> real \<Rightarrow> real" where
  "kepler_step Mk e Ek = Mk + e * sin Ek"

text \<open>
  The loop \<open>for(int loop(0); loop < 10; loop++)\<close>; the first argument counts the
  iterations that are left.
\<close>

fun kepler_loop :: "nat \<Rightarrow> real \<Rightarrow> real \<Rightarrow> real \<Rightarrow> real" where
  "kepler_loop 0 Mk e Ek = Ek"
| "kepler_loop (Suc n) Mk e Ek =
     (let Ek2 = kepler_step Mk e Ek
      in if \<bar>Ek2 - Ek\<bar> < KEPLER_DELTA_LIMIT then Ek else kepler_loop n Mk e Ek2)"

text \<open>
  \<open>WGS84::mu_Earth\<close> is declared in a header that is not part of the sources at hand; it is
  the argument \<open>mu_Earth\<close>.
\<close>

definition mean_anomaly :: "real \<Rightarrow> Ephemeris \<Rightarrow> real \<Rightarrow> real" where
  "mean_anomaly mu_Earth eph period_from_toe =
     (let n0 = sqrt mu_Earth / pow3 (sqrt_A eph)
      in M0 eph + (n0 + delta_n eph) * period_from_toe)"

definition eccentric_anomaly :: "real \<Rightarrow> Ephemeris \<Rightarrow> real \<Rightarrow> real" where
  "eccentric_anomaly mu_Earth eph period_from_toe =
     (let Mk = mean_anomaly mu_Earth eph period_from_toe;
          Ek = Mk
      in kepler_loop 10 Mk (ecc eph) Ek)"

section \<open>Matrices\<close>

text \<open>
  Modelled from the spec: the matrix class of \<open>param/matrix.h\<close> is missing from the sources;
  the specification treats the linear-algebra primitives as external collaborators with the
  textbook contract. A matrix is the list of its rows; a constructor with sizes only gives
  the zero matrix.
\<close>

type_synonym mat_t = "real list list"

definition rows :: "mat_t \<Rightarrow> nat" where
  "rows M = length M"

definition columns :: "mat_t \<Rightarrow> nat" where
  "columns M = (case M of [] \<Rightarrow> 0 | r # _ \<Rightarrow> length r)"

definition mat_elem :: "mat_t \<Rightarrow> nat \<Rightarrow> nat \<Rightarrow> real" where
  "mat_elem M i j = M ! i ! j"

definition mat_zero :: "nat \<Rightarrow> nat \<Rightarrow> mat_t" where
  "mat_zero r c = replicate r (replicate c 0)"

definition getI :: "nat \<Rightarrow> mat_t" where
  "getI n = map (\<lambda>i. map (\<lambda>j. if i = j then 1 else 0) [0..<n]) [0..<n]"

definition mat_add :: "mat_t \<Rightarrow> mat_t \<Rightarrow> mat_t" where
  "mat_add M N = map2 (map2 (+)) M N"

definition mat_sub :: "mat_t \<Rightarrow> mat_t \<Rightarrow> mat_t" where
  "mat_sub M N = map2 (map2 (-)) M N"

definition mat_scale :: "mat_t \<Rightarrow> real \<Rightarrow> mat_t" where
  "mat_scale M k = map (map (\<lambda>x. x * k)) M"

definition mat_col :: "mat_t \<Rightarrow> nat \<Rightarrow> real list" where
  "mat_col M j = map (\<lambda>r. r ! j) M"

definition mat_mul :: "mat_t \<Rightarrow> mat_t \<Rightarrow> mat_t" where
  "mat_mul M N =
     map (\<lambda>r. map (\<lambda>j. sum_list (map2 (*) r (mat_col N j))) [0..<columns N]) M"

definition mat_transpose :: "mat_t \<Rightarrow> mat_t" where
  "mat_transpose M = map (\<lambda>j. mat_col M j) [0..<columns M]"

definition wf_mat :: "nat \<Rightarrow> nat \<Rightarrow> mat_t \<Rightarrow> bool" where
  "wf_mat r c M \<longleftrightarrow> length M = r \<and> list_all (\<lambda>row. length row = c) M"

record CorrectInfo =
  H :: mat_t
  z :: mat_t
  R :: mat_t

section \<open>Clock-augmented filter state (INS_GPS2_Tightly.h)\<close>

text \<open>
  \<open>INS_ClockErrorEstimated\<close> adds the arrays \<open>m_clock_error\<close> and \<open>m_clock_error_rate\<close>,
  of \<open>CLOCKS_SUPPORTED\<close> entries each, to the base filter, whose own state is the field
  \<open>base_ins\<close> of an arbitrary type.
\<close>

record 'b INS_ClockErrorEstimated =
  m_clock_error :: "real list"
  m_clock_error_rate :: "real list"
  base_ins :: 'b

definition clock_error :: "'b INS_ClockErrorEstimated \<Rightarrow> nat \<Rightarrow> real" where
  "clock_error ins index = m_clock_error ins ! index"

text \<open>\<open>clock_error(index) += shift\<close>.\<close>

definition clock_error_add :: "nat \<Rightarrow> real \<Rightarrow> 'b INS_ClockErrorEstimated \<Rightarrow> 'b INS_ClockErrorEstimated" where
  "clock_error_add index shift ins =
     ins\<lparr>m_clock_error := (m_clock_error ins)[index := m_clock_error ins ! index + shift]\<rparr>"

record 'm GPS_RawData =
  clock_index :: nat
  measurement :: 'm
  gpstime :: GPS_Time

definition light_speed :: real where
  "light_speed = 299792458"

text \<open>
  \<open>range_residual_mean_ms\<close>: the loop over the rows of \<open>z\<close> with the state
  \<open>(range_residual_sum, z_ranges)\<close>. \<open>P_SIZE_WITHOUT_CLOCK_ERROR\<close> comes from the base
  filter, which is not part of the sources at hand; it is the first argument.
\<close>

fun range_residual_loop :: "nat \<Rightarrow> CorrectInfo \<Rightarrow> nat list \<Rightarrow> real \<times> nat \<Rightarrow> real \<times> nat" where
  "range_residual_loop col info [] st = st"
| "range_residual_loop col info (i # idxs) (range_residual_sum, z_ranges) =
     (if mat_elem (H info) i col > - 0.5
        then range_residual_loop col info idxs (range_residual_sum, z_ranges)
        else range_residual_loop col info idxs
               (range_residual_sum + mat_elem (z info) i 0, z_ranges + 1))"

definition range_residual_mean_ms :: "nat \<Rightarrow> nat \<Rightarrow> CorrectInfo \<Rightarrow> real" where
  "range_residual_mean_ms P_SIZE_WITHOUT_CLOCK_ERROR clock_idx info =
     (let (range_residual_sum, z_ranges) =
            range_residual_loop (P_SIZE_WITHOUT_CLOCK_ERROR + (clock_idx * 2)) info
              [0 ..< rows (z info)] (0, 0)
      in if z_ranges > 0
           then range_residual_sum / real z_ranges / light_speed / (1 / 10 ^ 3)
           else 0)"

section \<open>Back-propagation synchronizer (INS_GPS_Synchronization.h, INS_GPS_Back_Propagate)\<close>

record 'ins bp_snapshot_content_t =
  bp_ins_gps :: 'ins
  bp_Phi :: mat_t
  bp_GQGt :: mat_t
  elapsedT_from_last_correct :: real

record 'ins INS_GPS_Back_Propagate =
  bp_self :: 'ins
  bp_snapshots :: "'ins bp_snapshot_content_t list"
  back_propagate_depth :: real

text \<open>
  The walk of \<open>before_correct_INS\<close> with the reverse iterator: the list argument holds the
  snapshots from the iterator on, newest first. The result says whether \<open>erase\<close> was called
  and gives what is left of the visited part, newest first: \<open>erase(begin(), it.base())\<close>
  removes the snapshot the iterator stands on together with everything older.
\<close>

fun bp_walk ::
  "real \<Rightarrow> real \<Rightarrow> 'ins bp_snapshot_content_t list \<Rightarrow> bool \<times> 'ins bp_snapshot_content_t list"
where
  "bp_walk depth mod_elapsedT [] = (False, [])"
| "bp_walk depth mod_elapsedT (it # older) =
     (if elapsedT_from_last_correct it < depth
        then (if mod_elapsedT > 0.1 then (True, []) else (False, it # older))
        else
          let (erased, left) = bp_walk depth mod_elapsedT older
          in (erased,
              it\<lparr>elapsedT_from_last_correct := elapsedT_from_last_correct it - mod_elapsedT\<rparr>
                # left))"

text \<open>The first half of \<open>before_correct_INS\<close>, for a non-empty list of snapshots.\<close>

definition bp_depth_control ::
  "real \<Rightarrow> 'ins bp_snapshot_content_t list \<Rightarrow> bool \<times> 'ins bp_snapshot_content_t list"
where
  "bp_depth_control depth snaps =
     (let mod_elapsedT = elapsedT_from_last_correct (last snaps)
      in if mod_elapsedT > 0
           then (let (erased, left) = bp_walk depth mod_elapsedT (rev snaps)
                 in (erased, rev left))
           else (False, snaps))"

text \<open>
  \<open>before_correct_INS(H, R, K, v, x_hat)\<close>. \<open>correct_primitive\<close> belongs to the filter
  class, which is not part of the sources at hand, and is an argument here. \<open>K\<close> and
  \<open>x_hat\<close> are not used by the body.
\<close>

definition before_correct_INS ::
  "(mat_t \<Rightarrow> mat_t \<Rightarrow> mat_t \<Rightarrow> 'ins \<Rightarrow> 'ins) \<Rightarrow> mat_t \<Rightarrow> mat_t \<Rightarrow> mat_t
     \<Rightarrow> 'ins INS_GPS_Back_Propagate \<Rightarrow> 'ins INS_GPS_Back_Propagate"
where
  "before_correct_INS correct_primitive Hm Rm v st =
     (if bp_snapshots st = [] then st
      else
        let (erased, snaps) = bp_depth_control (back_propagate_depth st) (bp_snapshots st)
        in if erased \<and> snaps = [] then st\<lparr>bp_snapshots := snaps\<rparr>
           else
             let previous = last snaps;
                 snaps = butlast snaps;
                 H_dash = mat_mul Hm (bp_Phi previous);
                 R_dash = mat_add Rm
                            (mat_mul (mat_mul Hm (bp_GQGt previous)) (mat_transpose Hm));
                 previous = previous\<lparr>bp_ins_gps :=
                              correct_primitive H_dash v R_dash (bp_ins_gps previous)\<rparr>
             in st\<lparr>bp_snapshots := snaps @ [previous]\<rparr>)"

section \<open>Real-time synchronizer (INS_GPS_Synchronization.h, INS_GPS_RealTime)\<close>

datatype rt_mode_t = RT_NORMAL | RT_LIGHT_WEIGHT

record 'ins rt_snapshot_content_t =
  rt_ins_gps :: 'ins
  rt_A :: mat_t
  rt_Phi_inv :: mat_t
  rt_GQGt :: mat_t
  elapsedT_from_last_update :: real

record 'ins INS_GPS_RealTime =
  rt_self :: 'ins
  rt_snapshots :: "'ins rt_snapshot_content_t list"
  rt_mode :: rt_mode_t

text \<open>
  The scan of \<open>setup_correct\<close> with the reverse iterator (snapshots newest first); the
  counter is the distance of the iterator from \<open>rbegin()\<close>. The result is the position at
  which \<open>advanceT > -0.005\<close> first holds, or \<open>None\<close> when the loop runs to \<open>rend()\<close>.
\<close>

fun setup_correct_scan :: "real \<Rightarrow> 'ins rt_snapshot_content_t list \<Rightarrow> nat \<Rightarrow> nat option" where
  "setup_correct_scan advanceT [] k = None"
| "setup_correct_scan advanceT (it # older) k =
     (let advanceT = advanceT + elapsedT_from_last_update it
      in if advanceT > - 0.005 then Some k
         else setup_correct_scan advanceT older (k + 1))"

text \<open>
  \<open>erase(begin(), it.base())\<close> for a reverse iterator at distance \<open>k\<close> from \<open>rbegin()\<close>
  keeps the last \<open>k\<close> snapshots.
\<close>

definition setup_correct :: "real \<Rightarrow> 'ins INS_GPS_RealTime \<Rightarrow> bool \<times> 'ins INS_GPS_RealTime" where
  "setup_correct advanceT st =
     (if advanceT > 0 then (False, st)
      else
        case setup_correct_scan advanceT (rev (rt_snapshots st)) 0 of
          Some k \<Rightarrow>
            let k = (if k = 0 then k + 1 else k)
            in (True,
                st\<lparr>rt_snapshots :=
                     drop (length (rt_snapshots st) - k) (rt_snapshots st)\<rparr>)
        | None \<Rightarrow> (False, st))"

text \<open>The \<open>RT_NORMAL\<close> loop over the snapshots, oldest first, on the pair \<open>(H, R)\<close>.\<close>

fun rt_normal_loop :: "'ins rt_snapshot_content_t list \<Rightarrow> mat_t \<times> mat_t \<Rightarrow> mat_t \<times> mat_t" where
  "rt_normal_loop [] (Hm, Rm) = (Hm, Rm)"
| "rt_normal_loop (it # newer) (Hm, Rm) =
     (let Hm = mat_mul Hm (rt_Phi_inv it);
          Rm = mat_add Rm (mat_mul (mat_mul Hm (rt_GQGt it)) (mat_transpose Hm))
      in rt_normal_loop newer (Hm, Rm))"

text \<open>
  The \<open>RT_LIGHT_WEIGHT\<close> loop on \<open>(sum_A, sum_GQGt, bar_delteT, n)\<close>.
\<close>

fun rt_light_loop ::
  "'ins rt_snapshot_content_t list \<Rightarrow> mat_t \<times> mat_t \<times> real \<times> int \<Rightarrow> mat_t \<times> mat_t \<times> real \<times> int"
where
  "rt_light_loop [] st = st"
| "rt_light_loop (it # newer) (sum_A, sum_GQGt, bar_delteT, n) =
     rt_light_loop newer
       (mat_add sum_A (rt_A it), mat_add sum_GQGt (rt_GQGt it),
        bar_delteT + elapsedT_from_last_update it, n + 1)"

text \<open>
  The \<open>switch\<close> of \<open>correct_with_info\<close>: the compensation of \<open>H\<close> and \<open>R\<close> inside the
  \<open>CorrectInfo\<close> passed by reference.
\<close>

definition compensate_info ::
  "rt_mode_t \<Rightarrow> 'ins rt_snapshot_content_t list \<Rightarrow> CorrectInfo \<Rightarrow> CorrectInfo"
where
  "compensate_info mode snaps info =
     (case mode of
        RT_LIGHT_WEIGHT \<Rightarrow>
          if snaps \<noteq> [] then
            let sum_A = mat_zero (columns (H info)) (columns (H info));
                sum_GQGt = mat_zero (rows sum_A) (rows sum_A);
                (sum_A, sum_GQGt, bar_delteT, n) = rt_light_loop snaps (sum_A, sum_GQGt, 0, 0);
                bar_delteT = bar_delteT / real_of_int n;
                sum_A_GQGt = mat_mul sum_A sum_GQGt;
                sum_GQGt = mat_sub sum_GQGt
                             (mat_scale (mat_add sum_A_GQGt (mat_transpose sum_A_GQGt))
                                (bar_delteT * real_of_int (n - 1) / real_of_int (2 * n)));
                Rm = mat_add (R info)
                       (mat_mul (mat_mul (H info) sum_GQGt) (mat_transpose (H info)));
                Hm = mat_mul (H info)
                       (mat_sub (getI (rows sum_A)) (mat_scale sum_A bar_delteT))
            in info\<lparr>H := Hm, R := Rm\<rparr>
          else info
      | RT_NORMAL \<Rightarrow>
          let (Hm, Rm) = rt_normal_loop snaps (H info, R info)
          in info\<lparr>H := Hm, R := Rm\<rparr>)"

text \<open>
  \<open>correct_with_info(info)\<close>: compensation, then \<open>INS_GPS::correct_primitive(info)\<close> on the
  live filter. \<open>correct_primitive\<close> is an argument, as above.
\<close>

definition correct_with_info ::
  "(CorrectInfo \<Rightarrow> 'ins \<Rightarrow> 'ins) \<Rightarrow> CorrectInfo \<Rightarrow> 'ins INS_GPS_RealTime
     \<Rightarrow> 'ins INS_GPS_RealTime"
where
  "correct_with_info correct_primitive info st =
     st\<lparr>rt_self :=
          correct_primitive (compensate_info (rt_mode st) (rt_snapshots st) info) (rt_self st)\<rparr>"

text \<open>What \<open>correct2_tightly\<close> writes to \<open>std::cerr\<close>.\<close>

datatype cerr_t = Detect_receiver_clock_jump real | Fixed | Skipped

text \<open>
  \<open>correct2_tightly(gps, generator)\<close>. The generator is called with and without the third
  argument \<open>clock_error_shift\<close>, whose default is 0. \<open>snapshots.front()\<close> on an empty list
  has no defined behaviour: the result is \<open>None\<close> then.
\<close>

definition correct2_tightly ::
  "nat \<Rightarrow> (CorrectInfo \<Rightarrow> 'b INS_ClockErrorEstimated \<Rightarrow> 'b INS_ClockErrorEstimated)
     \<Rightarrow> ('b INS_ClockErrorEstimated \<Rightarrow> 'm GPS_RawData \<Rightarrow> real \<Rightarrow> CorrectInfo)
     \<Rightarrow> 'm GPS_RawData \<Rightarrow> 'b INS_ClockErrorEstimated INS_GPS_RealTime
     \<Rightarrow> (cerr_t list \<times> 'b INS_ClockErrorEstimated INS_GPS_RealTime) option"
where
  "correct2_tightly P_SIZE_WITHOUT_CLOCK_ERROR correct_primitive generator gps st =
     (case rt_snapshots st of
        [] \<Rightarrow> None
      | front # _ \<Rightarrow>
          let info = generator (rt_ins_gps front) gps 0
          in if rows (z info) < 1 then Some ([], st)
             else
               let delta_ms =
                     range_residual_mean_ms P_SIZE_WITHOUT_CLOCK_ERROR (clock_index gps) info
               in if delta_ms \<ge> 0.9 \<or> delta_ms \<le> - 0.9 then
                    let clock_error_shift =
                          light_speed * (1 / 10 ^ 3) * real_of_int \<lfloor>delta_ms + 0.5\<rfloor>;
                        info = generator (rt_ins_gps front) gps clock_error_shift;
                        delta_ms2 =
                          range_residual_mean_ms P_SIZE_WITHOUT_CLOCK_ERROR (clock_index gps)
                            info
                    in if delta_ms2 < 0.9 \<and> delta_ms2 > - 0.9 then
                         let st = st\<lparr>rt_snapshots :=
                                    map (\<lambda>it. it\<lparr>rt_ins_gps :=
                                            clock_error_add (clock_index gps) clock_error_shift
                                              (rt_ins_gps it)\<rparr>)
                                      (rt_snapshots st)\<rparr>;
                             st = st\<lparr>rt_self :=
                                    clock_error_add (clock_index gps) clock_error_shift
                                      (rt_self st)\<rparr>
                         in Some ([Detect_receiver_clock_jump delta_ms, Fixed],
                                  correct_with_info correct_primitive info st)
                       else Some ([Detect_receiver_clock_jump delta_ms, Skipped], st)
                  else Some ([], correct_with_info correct_primitive info st))"

section \<open>Scaled-integer ephemeris (GPS.h, Ephemeris::raw_t)\<close>

text \<open>
  The macro \<open>POWER_2(n)\<close>, which builds \<open>2^n\<close> from integer shifts, and the value of
  \<open>GPS_SC2RAD\<close>.
\<close>

definition POWER_2 :: "int \<Rightarrow> real" where
  "POWER_2 n =
     (if n \<ge> 0
        then real_of_int (2 ^ nat (if n \<ge> 0 then n else 0))
        else ((1 / real_of_int (2 ^ (if - n \<ge> 30 then 30 else nat (- (if n > 0 then 0 else n)))))
              / real_of_int (2 ^ (if - n \<ge> 30 then nat (- n - 30) else 0))))"

definition GPS_SC2RAD :: real where
  "GPS_SC2RAD = 31415926535898 / 10 ^ 13"

text \<open>The enumeration of the scaled fields and the table \<open>sf[]\<close>.\<close>

datatype sf_index =
    SF_t_GD | SF_t_oc | SF_a_f0 | SF_a_f1 | SF_a_f2
  | SF_c_rs | SF_delta_n | SF_M0 | SF_c_uc | SF_e | SF_c_us | SF_sqrt_A | SF_t_oe
  | SF_c_ic | SF_Omega0 | SF_c_is | SF_i0 | SF_c_rc | SF_omega | SF_dot_Omega0 | SF_dot_i0

fun sf :: "sf_index \<Rightarrow> real" where
  "sf SF_t_GD = POWER_2 (- 31)"
| "sf SF_t_oc = POWER_2 4"
| "sf SF_a_f0 = POWER_2 (- 31)"
| "sf SF_a_f1 = POWER_2 (- 43)"
| "sf SF_a_f2 = POWER_2 (- 55)"
| "sf SF_c_rs = POWER_2 (- 5)"
| "sf SF_delta_n = GPS_SC2RAD * POWER_2 (- 43)"
| "sf SF_M0 = GPS_SC2RAD * POWER_2 (- 31)"
| "sf SF_c_uc = POWER_2 (- 29)"
| "sf SF_e = POWER_2 (- 33)"
| "sf SF_c_us = POWER_2 (- 29)"
| "sf SF_sqrt_A = POWER_2 (- 19)"
| "sf SF_t_oe = POWER_2 4"
| "sf SF_c_ic = POWER_2 (- 29)"
| "sf SF_Omega0 = GPS_SC2RAD * POWER_2 (- 31)"
| "sf SF_c_is = POWER_2 (- 29)"
| "sf SF_i0 = GPS_SC2RAD * POWER_2 (- 31)"
| "sf SF_c_rc = POWER_2 (- 5)"
| "sf SF_omega = GPS_SC2RAD * POWER_2 (- 31)"
| "sf SF_dot_Omega0 = GPS_SC2RAD * POWER_2 (- 43)"
| "sf SF_dot_i0 = GPS_SC2RAD * POWER_2 (- 43)"

text \<open>
  The fields of \<open>raw_t\<close> carry the prefix \<open>r_\<close>, since the names are those of
  \<open>Ephemeris\<close>. The signed fields (\<open>s8_t\<close>, \<open>s16_t\<close>, \<open>s32_t\<close>) are read with
  \<open>sint\<close>, the unsigned ones with \<open>uint\<close>.
\<close>

record raw_t =
  r_svid :: "8 word"
  r_WN :: "16 word"
  r_URA :: "8 word"
  r_SV_health :: "8 word"
  r_iodc :: "16 word"
  r_t_GD :: "8 word"
  r_t_oc :: "16 word"
  r_a_f2 :: "8 word"
  r_a_f1 :: "16 word"
  r_a_f0 :: "32 word"
  r_iode :: "8 word"
  r_c_rs :: "16 word"
  r_delta_n :: "16 word"
  r_M0 :: "32 word"
  r_c_uc :: "16 word"
  r_e :: "32 word"
  r_c_us :: "16 word"
  r_sqrt_A :: "32 word"
  r_t_oe :: "16 word"
  r_fit_interval_flag :: bool
  r_c_ic :: "16 word"
  r_Omega0 :: "32 word"
  r_c_is :: "16 word"
  r_i0 :: "32 word"
  r_c_rc :: "16 word"
  r_omega :: "32 word"
  r_dot_Omega0 :: "32 word"
  r_dot_i0 :: "16 word"

text \<open>\<open>raw_t::fit_interval(flag, iodc)\<close>.\<close>

definition fit_interval_of :: "bool \<Rightarrow> 16 word \<Rightarrow> real" where
  "fit_interval_of flag iodc_raw =
     (let c = unat iodc_raw in
      if flag = False then 4 * 60 * 60
      else if c \<ge> 240 \<and> c \<le> 247 then 8 * 60 * 60
      else if (c \<ge> 248 \<and> c \<le> 255) \<or> c = 496 then 14 * 60 * 60
      else if c \<ge> 497 \<and> c \<le> 503 then 26 * 60 * 60
      else if c \<ge> 504 \<and> c \<le> 510 then 50 * 60 * 60
      else if c = 511 \<or> (c \<ge> 752 \<and> c \<le> 756) then 74 * 60 * 60
      else if c \<ge> 757 \<and> c \<le> 763 then 98 * 60 * 60
      else if (c \<ge> 764 \<and> c \<le> 767) \<or> (c \<ge> 1008 \<and> c \<le> 1010) then 122 * 60 * 60
      else if c \<ge> 1011 \<and> c \<le> 1020 then 146 * 60 * 60
      else 6 * 60 * 60)"

text \<open>\<open>sf[SF_x] * x\<close> of \<open>operator Ephemeris()\<close>, for a signed and an unsigned field.\<close>

definition from_signed :: "sf_index \<Rightarrow> 'a::len word \<Rightarrow> real" where
  "from_signed i x = sf i * real_of_int (sint x)"

definition from_unsigned :: "sf_index \<Rightarrow> 'a::len word \<Rightarrow> real" where
  "from_unsigned i x = sf i * real_of_int (uint x)"

definition Ephemeris_of_raw :: "raw_t \<Rightarrow> Ephemeris" where
  "Ephemeris_of_raw raw =
     \<lparr>svid = unat (r_svid raw),
      WN = unat (r_WN raw),
      URA = uint (r_URA raw),
      SV_health = unat (r_SV_health raw),
      iodc = uint (r_iodc raw),
      t_GD = from_signed SF_t_GD (r_t_GD raw),
      t_oc = from_unsigned SF_t_oc (r_t_oc raw),
      a_f2 = from_signed SF_a_f2 (r_a_f2 raw),
      a_f1 = from_signed SF_a_f1 (r_a_f1 raw),
      a_f0 = from_signed SF_a_f0 (r_a_f0 raw),
      iode = uint (r_iode raw),
      c_rs = from_signed SF_c_rs (r_c_rs raw),
      delta_n = from_signed SF_delta_n (r_delta_n raw),
      M0 = from_signed SF_M0 (r_M0 raw),
      c_uc = from_signed SF_c_uc (r_c_uc raw),
      ecc = from_unsigned SF_e (r_e raw),
      c_us = from_signed SF_c_us (r_c_us raw),
      sqrt_A = from_unsigned SF_sqrt_A (r_sqrt_A raw),
      t_oe = from_unsigned SF_t_oe (r_t_oe raw),
      fit_interval = fit_interval_of (r_fit_interval_flag raw) (r_iodc raw),
      c_ic = from_signed SF_c_ic (r_c_ic raw),
      Omega0 = from_signed SF_Omega0 (r_Omega0 raw),
      c_is = from_signed SF_c_is (r_c_is raw),
      i0 = from_signed SF_i0 (r_i0 raw),
      c_rc = from_signed SF_c_rc (r_c_rc raw),
      omega = from_signed SF_omega (r_omega raw),
      dot_Omega0 = from_signed SF_dot_Omega0 (r_dot_Omega0 raw),
      dot_i0 = from_signed SF_dot_i0 (r_dot_i0 raw)\<rparr>"

text \<open>
  The cast \<open>(s32_t)\<close> of a floating-point value truncates towards zero; when the truncated
  value cannot be represented in 32 signed bits the behaviour of the conversion is
  undefined, which is the result \<open>None\<close>.
\<close>

definition s32_cast :: "real \<Rightarrow> 32 word option" where
  "s32_cast x =
     (let v = (if x \<ge> 0 then \<lfloor>x\<rfloor> else \<lceil>x\<rceil>)
      in if - (2 ^ 31) \<le> v \<and> v \<le> 2 ^ 31 - 1 then Some (word_of_int v) else None)"

text \<open>
  The macro \<open>CONVERT\<close> of \<open>operator=(const Ephemeris &)\<close>:
  \<open>(s32_t)((eph.x + 0.5 * sf) / sf)\<close>, then the conversion to the type of the field, which
  keeps the low bits.
\<close>

definition CONVERT :: "sf_index \<Rightarrow> real \<Rightarrow> 'a::len word option" where
  "CONVERT i x = map_option ucast (s32_cast ((x + 0.5 * sf i) / sf i))"

definition raw_of_Ephemeris :: "Ephemeris \<Rightarrow> raw_t option" where
  "raw_of_Ephemeris eph = do {
     t_GD' \<leftarrow> CONVERT SF_t_GD (t_GD eph);
     t_oc' \<leftarrow> CONVERT SF_t_oc (t_oc eph);
     a_f0' \<leftarrow> CONVERT SF_a_f0 (a_f0 eph);
     a_f1' \<leftarrow> CONVERT SF_a_f1 (a_f1 eph);
     a_f2' \<leftarrow> CONVERT SF_a_f2 (a_f2 eph);
     c_rs' \<leftarrow> CONVERT SF_c_rs (c_rs eph);
     delta_n' \<leftarrow> CONVERT SF_delta_n (delta_n eph);
     M0' \<leftarrow> CONVERT SF_M0 (M0 eph);
     c_uc' \<leftarrow> CONVERT SF_c_uc (c_uc eph);
     e' \<leftarrow> CONVERT SF_e (ecc eph);
     c_us' \<leftarrow> CONVERT SF_c_us (c_us eph);
     sqrt_A' \<leftarrow> CONVERT SF_sqrt_A (sqrt_A eph);
     t_oe' \<leftarrow> CONVERT SF_t_oe (t_oe eph);
     c_ic' \<leftarrow> CONVERT SF_c_ic (c_ic eph);
     Omega0' \<leftarrow> CONVERT SF_Omega0 (Omega0 eph);
     c_is' \<leftarrow> CONVERT SF_c_is (c_is eph);
     i0' \<leftarrow> CONVERT SF_i0 (i0 eph);
     c_rc' \<leftarrow> CONVERT SF_c_rc (c_rc eph);
     omega' \<leftarrow> CONVERT SF_omega (omega eph);
     dot_Omega0' \<leftarrow> CONVERT SF_dot_Omega0 (dot_Omega0 eph);
     dot_i0' \<leftarrow> CONVERT SF_dot_i0 (dot_i0 eph);
     Some \<lparr>r_svid = word_of_nat (svid eph),
           r_WN = word_of_nat (WN eph),
           r_URA = word_of_int (URA eph),
           r_SV_health = word_of_nat (SV_health eph),
           r_iodc = word_of_int (iodc eph),
           r_t_GD = t_GD', r_t_oc = t_oc', r_a_f2 = a_f2', r_a_f1 = a_f1', r_a_f0 = a_f0',
           r_iode = word_of_int (iode eph),
           r_c_rs = c_rs', r_delta_n = delta_n', r_M0 = M0', r_c_uc = c_uc', r_e = e',
           r_c_us = c_us', r_sqrt_A = sqrt_A', r_t_oe = t_oe',
           r_fit_interval_flag = (fit_interval eph > 5 * 60 * 60),
           r_c_ic = c_ic', r_Omega0 = Omega0', r_c_is = c_is', r_i0 = i0', r_c_rc = c_rc',
           r_omega = omega', r_dot_Omega0 = dot_Omega0', r_dot_i0 = dot_i0'\<rparr>
   }"

section \<open>Example data\<close>

text \<open>Concrete records used by the evaluated examples below.\<close>

definition eph_blank :: Ephemeris where
  "eph_blank = \<lparr>svid = 0, WN = 0, URA = 0, SV_health = 0, iodc = 0, t_GD = 0, t_oc = 0,
     a_f2 = 0, a_f1 = 0, a_f0 = 0, iode = 0, c_rs = 0, delta_n = 0, M0 = 0, c_uc = 0,
     ecc = 0, c_us = 0, sqrt_A = 0, t_oe = 0, fit_interval = 0, c_ic = 0, Omega0 = 0,
     c_is = 0, i0 = 0, c_rc = 0, omega = 0, dot_Omega0 = 0, dot_i0 = 0\<rparr>"

text \<open>
  A satellite with the initial invalid record and one registered ephemeris of week 2000,
  \<open>t_oc = 7200\<close> and a four-hour fit interval, before and after that ephemeris has been
  selected; the target time is 5400 s before \<open>t_oc\<close>.
\<close>

definition C4_eph :: Ephemeris where
  "C4_eph = eph_blank\<lparr>WN := 2000, t_oc := 7200, t_oe := 7200, fit_interval := 14400\<rparr>"

definition C4_time :: GPS_Time where
  "C4_time = \<lparr>week = 2000, seconds = 1800\<rparr>"

definition C4_history :: "item_t list" where
  "C4_history =
     [\<lparr>property = eph_blank\<lparr>fit_interval := - 1\<rparr>, priority = 0, t_tag = 0\<rparr>,
      \<lparr>property = C4_eph, priority = 1, t_tag = 120960720\<rparr>]"



text \<open>
  The same satellite with a second ephemeris four hours later (\<open>t_oc = 21600\<close>), which has
  been selected at 15000 s; the target time 10000 s lies in the fit interval of the first
  ephemeris only. And a history in which a record with an eight-hour fit interval and higher
  priority shares the time tag of the first ephemeris.
\<close>

definition C4_eph_newer :: Ephemeris where
  "C4_eph_newer = eph_blank\<lparr>WN := 2000, t_oc := 21600, t_oe := 21600, fit_interval := 14400\<rparr>"

definition C4_history_two :: "item_t list" where
  "C4_history_two = C4_history @ [\<lparr>property = C4_eph_newer, priority = 1, t_tag = 120962160\<rparr>]"

definition C4_newer_selected :: Satellite where
  "C4_newer_selected = \<lparr>eph_history = \<lparr>history = C4_history_two, selected_index = 2\<rparr>\<rparr>"

definition C4_time_late :: GPS_Time where
  "C4_time_late = \<lparr>week = 2000, seconds = 10000\<rparr>"

definition C4_time_newer :: GPS_Time where
  "C4_time_newer = \<lparr>week = 2000, seconds = 15000\<rparr>"

definition C4_history_shared_tag :: "item_t list" where
  "C4_history_shared_tag =
     [C4_history ! 0,
      \<lparr>property = C4_eph\<lparr>fit_interval := 28800\<rparr>, priority = 2, t_tag = 120960720\<rparr>,
      C4_history ! 1]"

text \<open>An orbit with a small eccentricity, at the reference epoch and at mean anomaly 0.\<close>

definition C7_eph :: Ephemeris where
  "C7_eph = eph_blank\<lparr>sqrt_A := 5153, ecc := 1 / 100, M0 := 0\<rparr>"

text \<open>Real-time snapshots of a filter without state, 10 ms apart.\<close>

definition C5_snapshot :: "real \<Rightarrow> unit rt_snapshot_content_t" where
  "C5_snapshot dt = \<lparr>rt_ins_gps = (), rt_A = [ [0] ], rt_Phi_inv = [ [1] ], rt_GQGt = [ [0] ],
     elapsedT_from_last_update = dt\<rparr>"

definition C5_state :: "unit INS_GPS_RealTime" where
  "C5_state =
     \<lparr>rt_self = (),
      rt_snapshots = [C5_snapshot (1 / 100), C5_snapshot (1 / 100), C5_snapshot (1 / 100)],
      rt_mode = RT_NORMAL\<rparr>"

text \<open>Back-propagation snapshots of a filter without state.\<close>

definition C3_snapshot :: "real \<Rightarrow> unit bp_snapshot_content_t" where
  "C3_snapshot t = \<lparr>bp_ins_gps = (), bp_Phi = [ [1] ], bp_GQGt = [ [0] ],
     elapsedT_from_last_correct = t\<rparr>"

definition C3_primitive :: "mat_t \<Rightarrow> mat_t \<Rightarrow> mat_t \<Rightarrow> unit \<Rightarrow> unit" where
  "C3_primitive H_dash v R_dash ins = ins"

text \<open>
  A one-state filter with \<open>A = 1\<close> stepped by 10 ms: \<open>Phi = 1 + A * 0.01 = 101 / 100\<close>, so
  the stored inverse is \<open>100 / 101\<close>.
\<close>

definition C2_snapshot :: "unit rt_snapshot_content_t" where
  "C2_snapshot = \<lparr>rt_ins_gps = (), rt_A = [ [1] ], rt_Phi_inv = [ [100 / 101] ], rt_GQGt = [ [1] ],
     elapsedT_from_last_update = 1 / 100\<rparr>"

definition C2_info :: CorrectInfo where
  "C2_info = \<lparr>H = [ [1] ], z = [ [0] ], R = [ [0] ]\<rparr>"

text \<open>
  Three satellites whose range residual is the pseudorange excess minus the predicted clock
  error, seen by a filter whose only state is one receiver clock (the base state counts the
  primitive corrections applied).
\<close>

definition C1_generator ::
  "nat INS_ClockErrorEstimated \<Rightarrow> real GPS_RawData \<Rightarrow> real \<Rightarrow> CorrectInfo" where
  "C1_generator ins gps clock_error_shift =
     (let r = measurement gps - (clock_error ins (clock_index gps) + clock_error_shift)
      in \<lparr>H = [ [- 1], [- 1], [- 1] ], z = [ [r], [r], [r] ],
          R = [ [1, 0, 0], [0, 1, 0], [0, 0, 1] ]\<rparr>)"

definition C1_primitive :: "CorrectInfo \<Rightarrow> nat INS_ClockErrorEstimated \<Rightarrow> nat INS_ClockErrorEstimated" where
  "C1_primitive info ins = ins\<lparr>base_ins := base_ins ins + 1\<rparr>"

definition C1_ins :: "real \<Rightarrow> nat INS_ClockErrorEstimated" where
  "C1_ins c = \<lparr>m_clock_error = [c], m_clock_error_rate = [0], base_ins = 0\<rparr>"

definition C1_snapshot :: "real \<Rightarrow> nat INS_ClockErrorEstimated rt_snapshot_content_t" where
  "C1_snapshot c = \<lparr>rt_ins_gps = C1_ins c, rt_A = [ [0] ], rt_Phi_inv = [ [1] ], rt_GQGt = [ [0] ],
     elapsedT_from_last_update = 1 / 100\<rparr>"

definition C1_state :: "real \<Rightarrow> nat \<Rightarrow> nat INS_ClockErrorEstimated INS_GPS_RealTime" where
  "C1_state c n =
     \<lparr>rt_self = (C1_ins c)\<lparr>base_ins := n\<rparr>, rt_snapshots = [C1_snapshot c, C1_snapshot c],
      rt_mode = RT_NORMAL\<rparr>"

definition C1_gps :: "real GPS_RawData" where
  "C1_gps = \<lparr>clock_index = 0, measurement = 299792458 / 1000,
     gpstime = \<lparr>week = 2000, seconds = 1800\<rparr>\<rparr>"

text \<open>A broadcast record with the semi-major axis of a GPS orbit, \<open>sqrt_A = 2702000000 * 2^-19\<close>, about 5153.7.\<close>

definition raw_blank :: raw_t where
  "raw_blank = \<lparr>r_svid = 0, r_WN = 0, r_URA = 0, r_SV_health = 0, r_iodc = 0, r_t_GD = 0,
     r_t_oc = 0, r_a_f2 = 0, r_a_f1 = 0, r_a_f0 = 0, r_iode = 0, r_c_rs = 0, r_delta_n = 0,
     r_M0 = 0, r_c_uc = 0, r_e = 0, r_c_us = 0, r_sqrt_A = 0, r_t_oe = 0,
     r_fit_interval_flag = False, r_c_ic = 0, r_Omega0 = 0, r_c_is = 0, r_i0 = 0, r_c_rc = 0,
     r_omega = 0, r_dot_Omega0 = 0, r_dot_i0 = 0\<rparr>"

definition C8_raw :: raw_t where
  "C8_raw = raw_blank\<lparr>r_sqrt_A := 2702000000\<rparr>"

section \<open>Proof devices\<close>


text \<open>
  What the round trip through \<open>Ephemeris\<close> makes of a signed field: negative values move
  up by one unit, because the cast truncates towards zero.
\<close>

definition adjust :: "'a::len word \<Rightarrow> 'a word" where
  "adjust x = (if 0 \<le> sint x then x else x + 1)"

definition adjust_signed :: "raw_t \<Rightarrow> raw_t" where
  "adjust_signed raw =
     raw\<lparr>r_t_GD := adjust (r_t_GD raw), r_a_f2 := adjust (r_a_f2 raw),
         r_a_f1 := adjust (r_a_f1 raw), r_a_f0 := adjust (r_a_f0 raw),
         r_c_rs := adjust (r_c_rs raw), r_delta_n := adjust (r_delta_n raw),
         r_M0 := adjust (r_M0 raw), r_c_uc := adjust (r_c_uc raw),
         r_c_us := adjust (r_c_us raw), r_c_ic := adjust (r_c_ic raw),
         r_Omega0 := adjust (r_Omega0 raw), r_c_is := adjust (r_c_is raw),
         r_i0 := adjust (r_i0 raw), r_c_rc := adjust (r_c_rc raw),
         r_omega := adjust (r_omega raw), r_dot_Omega0 := adjust (r_dot_Omega0 raw),
         r_dot_i0 := adjust (r_dot_i0 raw)\<rparr>"

section \<open>Properties of GPS time\<close>

lemma seconds_week_times_nonneg:
  assumes "0 \<le> q" "q \<le> 7101"
  shows "seconds_week_times q = 604800 * real_of_int q"
proof -
  define k where "k = 604800 * q"
  have k: "0 \<le> k" "k < 2 ^ 32" using assms by (simp_all add: k_def)
  have "(word_of_nat seconds_week :: 32 word) * word_of_int q = word_of_int k"
    by (simp add: seconds_week_def k_def)
  moreover have "take_bit 32 k = k"
    using k by (intro take_bit_int_eq_self) simp_all
  then have "uint (word_of_int k :: 32 word) = k"
    by (simp add: uint_word_of_int_eq)
  then have "unat (word_of_int k :: 32 word) = nat k"
    by (simp only: unat_eq_nat_uint)
  ultimately have "seconds_week_times q = real (nat k)"
    by (simp only: seconds_week_times_def)
  then show ?thesis using k by (simp add: k_def)
qed

text \<open>
  Canonicalisation does restore \<open>0 \<le> seconds < 604800\<close> when the seconds field is not
  negative (and below 7102 weeks, where the unsigned product still fits).
\<close>

lemma canonicalize_nonneg_in_range:
  assumes "0 \<le> seconds t" "seconds t < 604800 * 7102"
  shows "0 \<le> seconds (canonicalize t) \<and> seconds (canonicalize t) < 604800"
proof -
  let ?q = "\<lfloor>seconds t / real seconds_week\<rfloor>"
  have q0: "0 \<le> ?q" using assms(1) by (simp add: seconds_week_def)
  have "seconds t / real seconds_week < 7102" using assms(2) by (simp add: seconds_week_def)
  then have "?q < 7102" by (simp add: floor_less_iff)
  then have q1: "?q \<le> 7101" by simp
  have fl: "real_of_int ?q \<le> seconds t / 604800" "seconds t / 604800 < real_of_int ?q + 1"
    by (simp_all add: seconds_week_def) linarith+
  show ?thesis using seconds_week_times_nonneg[OF q0 q1] fl
    by (simp add: canonicalize_def Let_def field_simps)
qed

lemma minus_time_eq:
  "minus_time a b = (real_of_int (week a - week b) * 604800) + (seconds a - seconds b)"
  by (simp add: minus_time_def seconds_week_def)

lemma seconds_week_times_neg:
  assumes "- 7101 \<le> q" "q < 0"
  shows "seconds_week_times q = 4294967296 + 604800 * real_of_int q"
proof -
  define k where "k = 604800 * q"
  have k: "- (2 ^ 32) < k" "k < 0" using assms by (simp_all add: k_def)
  have "(word_of_nat seconds_week :: 32 word) * word_of_int q = word_of_int k"
    by (simp add: seconds_week_def k_def)
  moreover have "k mod 2 ^ 32 = (k + 2 ^ 32) mod 2 ^ 32"
    by simp
  then have "k mod 2 ^ 32 = k + 2 ^ 32"
    using k by (simp only: mod_pos_pos_trivial)
  then have "take_bit 32 k = k + 2 ^ 32"
    by (simp add: take_bit_eq_mod)
  then have "uint (word_of_int k :: 32 word) = k + 2 ^ 32"
    by (simp add: uint_word_of_int_eq)
  then have "unat (word_of_int k :: 32 word) = nat (k + 2 ^ 32)"
    by (simp only: unat_eq_nat_uint)
  ultimately have "seconds_week_times q = real (nat (k + 2 ^ 32))"
    by (simp only: seconds_week_times_def)
  then show ?thesis using k by (simp add: k_def)
qed

text \<open>
  When the seconds field has become negative (by up to 7101 weeks) canonicalisation leaves
  it negative: the unsigned product is \<open>2^32\<close> too large.
\<close>

lemma canonicalize_negative_out_of_range:
  assumes "- (604800 * 7101) \<le> seconds t" "seconds t < 0"
  shows "seconds (canonicalize t) < 0"
proof -
  let ?q = "\<lfloor>seconds t / real seconds_week\<rfloor>"
  have "seconds t / real seconds_week < 0" using assms(2) by (simp add: seconds_week_def field_simps)
  then have q0: "?q < 0" by (simp add: floor_less_iff)
  have "- 7101 \<le> seconds t / real seconds_week" using assms(1) by (simp add: seconds_week_def field_simps)
  then have q1: "- 7101 \<le> ?q" by (simp add: le_floor_iff)
  have fl: "seconds t / 604800 < real_of_int ?q + 1"
    by (simp add: seconds_week_def)
  show ?thesis using seconds_week_times_neg[OF q1 q0] fl
    by (simp add: canonicalize_def Let_def field_simps)
qed

lemma floor_minus_one_second: "\<lfloor>- (1::real) / 604800\<rfloor> = - 1"
  by (simp add: floor_eq_iff)

text \<open>
  C9: after \<open>operator-=\<close>, \<open>operator-\<close> and \<open>operator+=\<close>, \<open>operator+\<close> with a finite
  offset the seconds field should again lie in \<open>[0, 604800)\<close>. Subtracting one second at
  the start of a week makes \<open>quot = -1\<close>; the unsigned product \<open>seconds_week * quot\<close> is
  then \<open>2^32 - 604800\<close>, and the seconds field ends at \<open>-4294362497\<close>.
\<close>

theorem C9_canonicalize_negative_offset:
  "minus_assign \<lparr>week = 2000, seconds = 0\<rparr> 1 = \<lparr>week = 1999, seconds = - 4294362497\<rparr>
   \<and> minus_sec \<lparr>week = 2000, seconds = 0\<rparr> 1 = \<lparr>week = 1999, seconds = - 4294362497\<rparr>
   \<and> plus_assign \<lparr>week = 2000, seconds = 0\<rparr> (- 1) = \<lparr>week = 1999, seconds = - 4294362497\<rparr>
   \<and> plus_sec \<lparr>week = 2000, seconds = 0\<rparr> (- 1) = \<lparr>week = 1999, seconds = - 4294362497\<rparr>
   \<and> \<not> (0 \<le> seconds (minus_assign \<lparr>week = 2000, seconds = 0\<rparr> 1))"
  by (simp add: minus_assign_def minus_sec_def plus_sec_def plus_assign_def canonicalize_def
      seconds_week_times_def seconds_week_def floor_minus_one_second Let_def)

section \<open>Validity of an ephemeris\<close>


text \<open>
  C6: \<open>is_valid(t)\<close> is true exactly when the absolute difference between \<open>t\<close> and the
  clock reference epoch \<open>(WN, t_oc)\<close> of the record, which is what
  \<open>period_from_time_of_clock(t)\<close> computes, is at most half of the fit interval.
\<close>

theorem C6_is_valid_iff:
  "period_from_time_of_clock eph t = minus_time t (base_time eph)
   \<and> period_from_time_of_clock eph t
       = seconds t - t_oc eph + (real_of_int (week t) - real (WN eph)) * 604800
   \<and> (is_valid eph t \<longleftrightarrow> \<bar>period_from_time_of_clock eph t\<bar> \<le> fit_interval eph / 2)
   \<and> (is_valid eph t \<longleftrightarrow> \<bar>minus_time t (base_time eph)\<bar> \<le> fit_interval eph / 2)"
  by (simp add: is_valid_def period_from_time_of_clock_def interval_def minus_time_def
      base_time_def seconds_week_def algebra_simps)

section \<open>The default-constructed satellite\<close>

lemma sentinel_fields:
  "ephemeris (Satellite_init eph0)
     = eph0\<lparr>WN := 0, t_oc := 0, t_oe := 0, fit_interval := - 1\<rparr>"
  by (simp add: ephemeris_def Satellite_init_def PropertyHistory_init_def current_def Let_def)

lemma sentinel_invalid: "\<not> is_valid (ephemeris (Satellite_init eph0)) t"
  by (simp add: sentinel_fields is_valid_def)

lemma select_init:
  "select t valid gd (eph_history (Satellite_init eph0))
     = (False, eph_history (Satellite_init eph0))"
  by (simp add: select_def Satellite_init_def PropertyHistory_init_def current_def Let_def
      split: option.splits)

text \<open>
  C10: a default-constructed satellite holds the sentinel ephemeris with
  \<open>fit_interval = -1\<close>, \<open>WN = 0\<close>, \<open>t_oc = 0\<close>, \<open>t_oe = 0\<close>; before any registration
  the current ephemeris is valid at no time, and \<open>select_ephemeris\<close> returns false at every
  time and leaves the satellite as it is.
\<close>

theorem C10_default_satellite:
  "fit_interval (ephemeris (Satellite_init eph0)) = - 1
   \<and> WN (ephemeris (Satellite_init eph0)) = 0
   \<and> t_oc (ephemeris (Satellite_init eph0)) = 0
   \<and> t_oe (ephemeris (Satellite_init eph0)) = 0
   \<and> \<not> is_valid (ephemeris (Satellite_init eph0)) t
   \<and> select_ephemeris t (Satellite_init eph0) = (False, Satellite_init eph0)"
  by (simp add: sentinel_invalid select_ephemeris_def select_init) (simp add: sentinel_fields)

section \<open>Ephemeris selection\<close>





text \<open>The example history starts with the record of a default-constructed satellite.\<close>

lemma C4_history_initial: "history (eph_history (Satellite_init eph_blank)) = [C4_history ! 0]"
  by (simp add: Satellite_init_def PropertyHistory_init_def current_def C4_history_def eph_blank_def Let_def)


lemma C4_eph_t_tag: "calc_t_tag_time (base_time C4_eph) = t_tag (C4_history ! 1)"
  by (simp add: calc_t_tag_time_def calc_t_tag_def serialize_def base_time_def C4_eph_def
      eph_blank_def seconds_week_def TimeQuantization_def INT_MAX_def INT_MIN_def Let_def
      C4_history_def)



lemmas C4_example_defs = select_ephemeris_def select_def
      C4_history_def C4_history_two_def C4_history_shared_tag_def C4_newer_selected_def ephemeris_def current_def is_valid_def maybe_better_one_avilable_def
      period_from_first_valid_transmittion_def period_from_time_of_clock_def interval_def
      C4_eph_def C4_eph_newer_def eph_blank_def C4_time_late_def C4_time_newer_def seconds_week_def Let_def

lemma C4_eph_newer_t_tag: "calc_t_tag_time (base_time C4_eph_newer) = t_tag (C4_history_two ! 2)"
  by (simp add: calc_t_tag_time_def calc_t_tag_def serialize_def base_time_def C4_eph_newer_def
      eph_blank_def seconds_week_def TimeQuantization_def INT_MAX_def INT_MIN_def Let_def
      C4_history_def C4_history_two_def C4_history_shared_tag_def)

lemma C4_newer_reached:
  "select_ephemeris C4_time_newer \<lparr>eph_history = \<lparr>history = C4_history_two, selected_index = 0\<rparr>\<rparr>
     = (True, C4_newer_selected)"
  by (simp add: C4_example_defs upt_rec)



text \<open>
  When two valid records share a time tag the one met first, of higher priority, is chosen
  and the other is passed over, although it is closer here.
\<close>

lemma C4_shared_tag_example:
  "select_ephemeris C4_time
      \<lparr>eph_history = \<lparr>history = C4_history_shared_tag, selected_index = 0\<rparr>\<rparr>
     = (True, \<lparr>eph_history = \<lparr>history = C4_history_shared_tag, selected_index = 1\<rparr>\<rparr>)"
  "is_valid (property (C4_history_shared_tag ! 2)) C4_time"
  "\<bar>period_from_first_valid_transmittion (property (C4_history_shared_tag ! 2)) C4_time\<bar>
     < \<bar>period_from_first_valid_transmittion (property (C4_history_shared_tag ! 1)) C4_time\<bar>"
  by (simp_all add: C4_example_defs C4_time_def upt_rec)





section \<open>Kepler iteration\<close>

lemma kepler_loop_iterates:
  "\<exists>k\<le>n. kepler_loop n Mk e E0 = ((kepler_step Mk e) ^^ k) E0
     \<and> (\<forall>j<k. \<bar>((kepler_step Mk e) ^^ Suc j) E0 - ((kepler_step Mk e) ^^ j) E0\<bar>
               \<ge> KEPLER_DELTA_LIMIT)
     \<and> (k < n \<longrightarrow> \<bar>((kepler_step Mk e) ^^ Suc k) E0 - ((kepler_step Mk e) ^^ k) E0\<bar>
                  < KEPLER_DELTA_LIMIT)"
proof (induction n arbitrary: E0)
  case 0
  then show ?case by simp
next
  case (Suc n)
  let ?f = "kepler_step Mk e"
  show ?case
  proof (cases "\<bar>?f E0 - E0\<bar> < KEPLER_DELTA_LIMIT")
    case True
    then have "kepler_loop (Suc n) Mk e E0 = E0" by (simp add: Let_def)
    then show ?thesis using True by (intro exI[of _ 0]) simp
  next
    case False
    then have eq: "kepler_loop (Suc n) Mk e E0 = kepler_loop n Mk e (?f E0)"
      by (simp add: Let_def)
    from Suc.IH[of "?f E0"] obtain k where k: "k \<le> n"
      "kepler_loop n Mk e (?f E0) = (?f ^^ k) (?f E0)"
      "\<forall>j<k. \<bar>(?f ^^ Suc j) (?f E0) - (?f ^^ j) (?f E0)\<bar> \<ge> KEPLER_DELTA_LIMIT"
      "k < n \<longrightarrow> \<bar>(?f ^^ Suc k) (?f E0) - (?f ^^ k) (?f E0)\<bar> < KEPLER_DELTA_LIMIT"
      by blast
    have sh: "\<And>j. (?f ^^ j) (?f E0) = (?f ^^ Suc j) E0"
      by (simp add: funpow_swap1)
    have a: "kepler_loop (Suc n) Mk e E0 = (?f ^^ Suc k) E0"
      using eq k(2) sh by simp
    have b: "\<forall>j<Suc k. \<bar>(?f ^^ Suc j) E0 - (?f ^^ j) E0\<bar> \<ge> KEPLER_DELTA_LIMIT"
    proof (intro allI impI)
      fix j assume "j < Suc k"
      show "\<bar>(?f ^^ Suc j) E0 - (?f ^^ j) E0\<bar> \<ge> KEPLER_DELTA_LIMIT"
      proof (cases j)
        case 0
        then show ?thesis using False by simp
      next
        case (Suc j')
        then have "j' < k" using \<open>j < Suc k\<close> by simp
        then show ?thesis using k(3) sh Suc by metis
      qed
    qed
    have c: "Suc k < Suc n \<longrightarrow>
        \<bar>(?f ^^ Suc (Suc k)) E0 - (?f ^^ Suc k) E0\<bar> < KEPLER_DELTA_LIMIT"
      using k(4) sh by (metis Suc_less_eq)
    show ?thesis using k(1) a b c by (intro exI[of _ "Suc k"]) blast
  qed
qed

lemma kepler_step_fixed: "(kepler_step 0 e ^^ k) 0 = 0"
  by (induction k) (simp_all add: kepler_step_def)

text \<open>
  C7: \<open>eccentric_anomaly(tk)\<close> computes \<open>M_k = M0 + (n0 + delta_n) * tk\<close> and iterates
  \<open>E \<leftarrow> M_k + e * sin E\<close> from \<open>E = M_k\<close>. The value returned is the \<open>k\<close>-th iterate for
  some \<open>k \<le> 10\<close>: every earlier pair of successive iterates differs by at least
  \<open>10^-12\<close>, and when \<open>k < 10\<close> the loop stopped because the next iterate differs from the
  \<open>k\<close>-th by less than \<open>10^-12\<close>; when the cap is hit the value is the tenth iterate.
\<close>

theorem C7_eccentric_anomaly:
  "mean_anomaly mu eph tk
     = M0 eph + (sqrt mu / (sqrt_A eph * sqrt_A eph * sqrt_A eph) + delta_n eph) * tk
   \<and> kepler_step (mean_anomaly mu eph tk) (ecc eph) E
       = mean_anomaly mu eph tk + ecc eph * sin E
   \<and> (\<exists>k\<le>10.
        eccentric_anomaly mu eph tk
          = ((kepler_step (mean_anomaly mu eph tk) (ecc eph)) ^^ k) (mean_anomaly mu eph tk)
        \<and> (\<forall>j<k. \<bar>((kepler_step (mean_anomaly mu eph tk) (ecc eph)) ^^ Suc j)
                       (mean_anomaly mu eph tk)
                     - ((kepler_step (mean_anomaly mu eph tk) (ecc eph)) ^^ j)
                         (mean_anomaly mu eph tk)\<bar>
                  \<ge> 1 / 10 ^ 12)
        \<and> (k < 10 \<longrightarrow>
              \<bar>((kepler_step (mean_anomaly mu eph tk) (ecc eph)) ^^ Suc k)
                  (mean_anomaly mu eph tk)
                - ((kepler_step (mean_anomaly mu eph tk) (ecc eph)) ^^ k)
                    (mean_anomaly mu eph tk)\<bar>
              < 1 / 10 ^ 12))"
proof -
  have "mean_anomaly mu eph tk
     = M0 eph + (sqrt mu / (sqrt_A eph * sqrt_A eph * sqrt_A eph) + delta_n eph) * tk"
    by (simp add: mean_anomaly_def pow3_def Let_def)
  moreover have "kepler_step (mean_anomaly mu eph tk) (ecc eph) E
       = mean_anomaly mu eph tk + ecc eph * sin E"
    by (simp add: kepler_step_def)
  moreover note kepler_loop_iterates[of 10 "mean_anomaly mu eph tk" "ecc eph"
      "mean_anomaly mu eph tk"]
  ultimately show ?thesis
    unfolding eccentric_anomaly_def Let_def KEPLER_DELTA_LIMIT_def by simp
qed

theorem C7_eccentric_anomaly_witness:
  "mean_anomaly 398600500000000 C7_eph 0 = 0
   \<and> eccentric_anomaly 398600500000000 C7_eph 0 = 0"
proof -
  have m: "mean_anomaly 398600500000000 C7_eph 0 = 0"
    by (simp add: mean_anomaly_def C7_eph_def eph_blank_def Let_def)
  from C7_eccentric_anomaly[of 398600500000000 C7_eph 0]
  obtain k where "eccentric_anomaly 398600500000000 C7_eph 0
      = ((kepler_step (mean_anomaly 398600500000000 C7_eph 0) (ecc C7_eph)) ^^ k)
          (mean_anomaly 398600500000000 C7_eph 0)"
    by blast
  then show ?thesis using m by (simp add: kepler_step_fixed)
qed

section \<open>Rejection of future measurements\<close>

text \<open>
  C5: for every positive \<open>advanceT\<close>, \<open>setup_correct(advanceT)\<close> returns false and leaves
  the list of snapshots (and everything else) as it is.
\<close>

theorem C5_setup_correct_future:
  "0 < advanceT \<Longrightarrow> setup_correct advanceT st = (False, st)"
  by (simp add: setup_correct_def)

theorem C5_setup_correct_future_witness:
  "(0::real) < 1 / 100 \<and> setup_correct (1 / 100) C5_state = (False, C5_state)
   \<and> length (rt_snapshots (snd (setup_correct (1 / 100) C5_state))) = 3"
  using C5_setup_correct_future[of "1 / 100" C5_state] by (simp add: C5_state_def)

text \<open>For comparison, a measurement 20 ms old is accepted and trims the list.\<close>

lemma setup_correct_past_example:
  "setup_correct (- (2 / 100)) C5_state
     = (True, C5_state\<lparr>rt_snapshots := [C5_snapshot (1 / 100)]\<rparr>)"
  by (simp add: setup_correct_def C5_state_def C5_snapshot_def Let_def)

section \<open>Depth control of the back-propagation\<close>

lemma bp_walk_reached:
  assumes "\<forall>x\<in>set newer. \<not> elapsedT_from_last_correct x < depth"
    and "elapsedT_from_last_correct s < depth"
  shows "bp_walk depth m (newer @ s # older)
     = (m > 0.1,
        map (\<lambda>it. it\<lparr>elapsedT_from_last_correct := elapsedT_from_last_correct it - m\<rparr>) newer
          @ (if m > 0.1 then [] else s # older))"
  using assms by (induction newer) (auto simp: Let_def)

lemma bp_walk_not_reached:
  assumes "\<forall>x\<in>set xs. \<not> elapsedT_from_last_correct x < depth"
  shows "bp_walk depth m xs
     = (False,
        map (\<lambda>it. it\<lparr>elapsedT_from_last_correct := elapsedT_from_last_correct it - m\<rparr>) xs)"
  using assms by (induction xs) (auto simp: Let_def)

text \<open>
  C3 as stated fails in both directions and in its last part. With depth 0.2 s (more than
  0.1 s) and snapshots at 0.01 s and 0.02 s the newest snapshot is below the depth, yet
  nothing is erased. With depth 0.05 s (not more than 0.1 s) and snapshots at 0.04 s and
  0.2 s the older snapshot is reached and erased. With depth 1 s and a single snapshot at
  0.5 s that only snapshot is erased and the correction is abandoned with an empty list.
\<close>

theorem C3_depth_guard_counterexample:
  "bp_depth_control (2 / 10) [C3_snapshot (1 / 100), C3_snapshot (2 / 100)]
     = (False, [C3_snapshot (1 / 100), C3_snapshot (2 / 100)])
   \<and> bp_depth_control (5 / 100) [C3_snapshot (4 / 100), C3_snapshot (2 / 10)]
       = (True, [C3_snapshot 0])
   \<and> bp_snapshots (before_correct_INS C3_primitive [ [1] ] [ [1] ] [ [0] ]
        \<lparr>bp_self = (), bp_snapshots = [C3_snapshot (5 / 10)], back_propagate_depth = 1\<rparr>)
       = []"
  by (simp add: bp_depth_control_def before_correct_INS_def C3_snapshot_def Let_def)

text \<open>
  C3 (amended): in the walk from the newest snapshot to the oldest, which runs when the
  newest snapshot's \<open>elapsedT_from_last_correct\<close> is positive, when a snapshot below
  \<open>back_propagate_depth\<close> is reached, all snapshots from the front up to and including it
  are erased if and only if the newest snapshot's \<open>elapsedT_from_last_correct\<close> on entry is
  greater than 0.1 s; otherwise nothing is erased. The snapshots newer than the one reached
  stay, with the newest elapsed time subtracted from theirs, so the list becomes empty
  exactly when the erasure happens and the snapshot reached is the newest one.
\<close>

theorem C3_depth_control:
  assumes "snaps = older @ [s] @ newer"
    and "elapsedT_from_last_correct s < depth"
    and "\<forall>x\<in>set newer. depth \<le> elapsedT_from_last_correct x"
    and "0 < elapsedT_from_last_correct (last snaps)"
  shows "bp_depth_control depth snaps =
          (elapsedT_from_last_correct (last snaps) > 0.1,
           (if elapsedT_from_last_correct (last snaps) > 0.1 then [] else older @ [s])
           @ map (\<lambda>it. it\<lparr>elapsedT_from_last_correct :=
                     elapsedT_from_last_correct it - elapsedT_from_last_correct (last snaps)\<rparr>)
               newer)
       \<and> (snd (bp_depth_control depth snaps) = []
            \<longleftrightarrow> elapsedT_from_last_correct (last snaps) > 0.1 \<and> newer = [])"
proof -
  let ?m = "elapsedT_from_last_correct (last snaps)"
  have r: "rev snaps = rev newer @ s # rev older" using assms(1) by simp
  have n: "\<forall>x\<in>set (rev newer). \<not> elapsedT_from_last_correct x < depth"
    using assms(3) by auto
  have e: "bp_depth_control depth snaps =
          (?m > 0.1,
           (if ?m > 0.1 then [] else older @ [s])
           @ map (\<lambda>it. it\<lparr>elapsedT_from_last_correct :=
                     elapsedT_from_last_correct it - ?m\<rparr>) newer)"
    using assms(4) bp_walk_reached[OF n assms(2), of ?m "rev older"]
    by (simp add: bp_depth_control_def Let_def r rev_map)
  show ?thesis unfolding e by simp
qed

theorem C3_depth_control_witness:
  "[C3_snapshot (1 / 100), C3_snapshot (4 / 100), C3_snapshot (2 / 10)]
     = [C3_snapshot (1 / 100)] @ [C3_snapshot (4 / 100)] @ [C3_snapshot (2 / 10)]
   \<and> elapsedT_from_last_correct (C3_snapshot (4 / 100)) < 5 / 100
   \<and> bp_depth_control (5 / 100)
        [C3_snapshot (1 / 100), C3_snapshot (4 / 100), C3_snapshot (2 / 10)]
       = (True, [C3_snapshot 0])"
proof -
  have a: "[C3_snapshot (1 / 100), C3_snapshot (4 / 100), C3_snapshot (2 / 10)]
     = [C3_snapshot (1 / 100)] @ [C3_snapshot (4 / 100)] @ [C3_snapshot (2 / 10)]"
    by simp
  have b: "elapsedT_from_last_correct (C3_snapshot (4 / 100)) < 5 / 100"
    by (simp add: C3_snapshot_def)
  have c: "\<forall>x\<in>set [C3_snapshot (2 / 10)]. 5 / 100 \<le> elapsedT_from_last_correct x"
    by (simp add: C3_snapshot_def)
  have d: "0 < elapsedT_from_last_correct
      (last [C3_snapshot (1 / 100), C3_snapshot (4 / 100), C3_snapshot (2 / 10)])"
    by (simp add: C3_snapshot_def)
  show ?thesis using C3_depth_control[OF a b c d] b by (simp add: C3_snapshot_def)
qed

section \<open>Clock-jump detection in the real-time synchronizer\<close>


lemma range_residual_loop_eq:
  "range_residual_loop col info idxs (s, n)
     = (s + sum_list (map (\<lambda>i. mat_elem (z info) i 0)
                        (filter (\<lambda>i. \<not> mat_elem (H info) i col > - 0.5) idxs)),
        n + length (filter (\<lambda>i. \<not> mat_elem (H info) i col > - 0.5) idxs))"
  by (induction idxs arbitrary: s n) (auto simp: algebra_simps)

lemma range_residual_mean_ms_eq:
  assumes "\<forall>i<rows (z info). mat_elem (H info) i (P + clock_idx * 2) = - 1
                              \<or> mat_elem (H info) i (P + clock_idx * 2) = 0"
  shows "range_residual_mean_ms P clock_idx info =
     (if filter (\<lambda>i. mat_elem (H info) i (P + clock_idx * 2) = - 1) [0 ..< rows (z info)] = []
        then 0
        else (sum_list (map (\<lambda>i. mat_elem (z info) i 0)
                (filter (\<lambda>i. mat_elem (H info) i (P + clock_idx * 2) = - 1) [0 ..< rows (z info)]))
              / real (length (filter (\<lambda>i. mat_elem (H info) i (P + clock_idx * 2) = - 1)
                               [0 ..< rows (z info)])))
             / (light_speed * (1 / 10 ^ 3)))"
proof -
  let ?col = "P + clock_idx * 2"
  have f: "filter (\<lambda>i. \<not> mat_elem (H info) i ?col > - 0.5) [0 ..< rows (z info)]
         = filter (\<lambda>i. mat_elem (H info) i ?col = - 1) [0 ..< rows (z info)]"
    using assms by (intro filter_cong) auto
  show ?thesis
    unfolding range_residual_mean_ms_def range_residual_loop_eq f
    by (simp add: Let_def)
qed

lemma range_residual_mean_ms_no_rows:
  "rows (z info) < 1 \<Longrightarrow> range_residual_mean_ms P clock_idx info = 0"
  by (simp add: range_residual_mean_ms_def)

lemma clock_error_add_value:
  "index < length (m_clock_error ins) \<Longrightarrow>
     clock_error (clock_error_add index shift ins) index = clock_error ins index + shift"
  by (simp add: clock_error_def clock_error_add_def)

text \<open>
  C1: let \<open>mu\<close> be the mean range residual of the clock \<open>clock_index\<close> in
  milliseconds, computed from the correction generated at the oldest retained snapshot: the
  mean of the rows of \<open>z\<close> whose clock column is \<open>-1\<close> (the generator writes only
  \<open>-1\<close> or \<open>0\<close> there), divided by \<open>c * 10^-3\<close>. When \<open>|mu| \<ge> 0.9\<close>, the
  corrector takes \<open>shift = c * 10^-3 * round mu\<close> (\<open>round\<close> is \<open>floor (mu + 1/2)\<close>),
  generates the correction again with that shift, and checks the new mean \<open>mu1\<close>: if
  \<open>|mu1| < 0.9\<close>, the shift is added to the clock error of every snapshot and of the
  live filter and the shifted correction is applied (compensated and passed to the primitive
  correction); otherwise the state is left as it was and the epoch is skipped.
\<close>

theorem C1_clock_jump:
  fixes P :: nat and gps :: "'m GPS_RawData"
    and st :: "'b INS_ClockErrorEstimated INS_GPS_RealTime"
    and generator cp front rest
  defines "info0 \<equiv> generator (rt_ins_gps front) gps 0"
  defines "mu \<equiv> range_residual_mean_ms P (clock_index gps) info0"
  defines "shift \<equiv> light_speed * (1 / 10 ^ 3) * real_of_int (round mu)"
  defines "info1 \<equiv> generator (rt_ins_gps front) gps shift"
  defines "mu1 \<equiv> range_residual_mean_ms P (clock_index gps) info1"
  defines "shifted \<equiv> map (\<lambda>it. it\<lparr>rt_ins_gps :=
                          clock_error_add (clock_index gps) shift (rt_ins_gps it)\<rparr>)
                       (rt_snapshots st)"
  defines "sel \<equiv> filter (\<lambda>i. mat_elem (H info0) i (P + clock_index gps * 2) = - 1)
                    [0 ..< rows (z info0)]"
  assumes snaps: "rt_snapshots st = front # rest"
    and cols: "\<forall>i<rows (z info0). mat_elem (H info0) i (P + clock_index gps * 2) = - 1
                                  \<or> mat_elem (H info0) i (P + clock_index gps * 2) = 0"
    and idx: "\<forall>ins\<in>insert (rt_self st) (rt_ins_gps ` set (rt_snapshots st)).
                clock_index gps < length (m_clock_error ins)"
    and jump: "0.9 \<le> \<bar>mu\<bar>"
  shows "mu = (sum_list (map (\<lambda>i. mat_elem (z info0) i 0) sel) / real (length sel))
               / (light_speed * (1 / 10 ^ 3))
       \<and> correct2_tightly P cp generator gps st =
          (if \<bar>mu1\<bar> < 0.9
             then Some ([Detect_receiver_clock_jump mu, Fixed],
                    st\<lparr>rt_snapshots := shifted,
                       rt_self := cp (compensate_info (rt_mode st) shifted info1)
                                   (clock_error_add (clock_index gps) shift (rt_self st))\<rparr>)
             else Some ([Detect_receiver_clock_jump mu, Skipped], st))
       \<and> (\<forall>ins\<in>insert (rt_self st) (rt_ins_gps ` set (rt_snapshots st)).
             clock_error (clock_error_add (clock_index gps) shift ins) (clock_index gps)
               = clock_error ins (clock_index gps) + shift)"
proof -
  have j: "mu \<ge> 0.9 \<or> mu \<le> - 0.9" using jump by (auto simp: abs_if split: if_splits)
  have r: "real_of_int \<lfloor>mu + 0.5\<rfloor> = real_of_int (round mu)" by (simp add: round_def)
  have c: "(mu1 < 0.9 \<and> mu1 > - 0.9) \<longleftrightarrow> \<bar>mu1\<bar> < 0.9" by (auto simp: abs_if)
  have n: "\<not> rows (z info0) < 1"
  proof
    assume "rows (z info0) < 1"
    then have "mu = 0" unfolding mu_def by (rule range_residual_mean_ms_no_rows)
    then show False using jump by simp
  qed
  have m: "mu = (if sel = [] then 0
                 else (sum_list (map (\<lambda>i. mat_elem (z info0) i 0) sel) / real (length sel))
                        / (light_speed * (1 / 10 ^ 3)))"
    unfolding mu_def sel_def by (rule range_residual_mean_ms_eq[OF cols])
  have "sel \<noteq> []" using m jump by auto
  then have 1: "mu = (sum_list (map (\<lambda>i. mat_elem (z info0) i 0) sel) / real (length sel))
               / (light_speed * (1 / 10 ^ 3))"
    using m by simp
  have 2: "correct2_tightly P cp generator gps st =
          (if \<bar>mu1\<bar> < 0.9
             then Some ([Detect_receiver_clock_jump mu, Fixed],
                    st\<lparr>rt_snapshots := shifted,
                       rt_self := cp (compensate_info (rt_mode st) shifted info1)
                                   (clock_error_add (clock_index gps) shift (rt_self st))\<rparr>)
             else Some ([Detect_receiver_clock_jump mu, Skipped], st))"
    using j n c
    unfolding correct2_tightly_def snaps list.case Let_def
      info0_def[symmetric] mu_def[symmetric] r shift_def[symmetric] info1_def[symmetric]
      mu1_def[symmetric]
    by (simp add: correct_with_info_def shifted_def snaps)
  have 3: "\<forall>ins\<in>insert (rt_self st) (rt_ins_gps ` set (rt_snapshots st)).
             clock_error (clock_error_add (clock_index gps) shift ins) (clock_index gps)
               = clock_error ins (clock_index gps) + shift"
    using idx clock_error_add_value by blast
  show ?thesis using 1 2 3 by blast
qed

lemma C1_mu0: "range_residual_mean_ms 0 (clock_index C1_gps)
     (C1_generator (rt_ins_gps (C1_snapshot 0)) C1_gps 0) = 1"
  by (simp add: range_residual_mean_ms_def C1_generator_def C1_gps_def C1_snapshot_def C1_ins_def
      clock_error_def rows_def mat_elem_def light_speed_def Let_def upt_rec)

lemma C1_mu1: "range_residual_mean_ms 0 (clock_index C1_gps)
     (C1_generator (rt_ins_gps (C1_snapshot 0)) C1_gps (299792458 / 1000)) = 0"
  by (simp add: range_residual_mean_ms_def C1_generator_def C1_gps_def C1_snapshot_def C1_ins_def
      clock_error_def rows_def mat_elem_def light_speed_def Let_def upt_rec)

theorem C1_clock_jump_witness:
  "rt_snapshots (C1_state 0 0) = C1_snapshot 0 # [C1_snapshot 0]
   \<and> (0.9::real) \<le> \<bar>range_residual_mean_ms 0 (clock_index C1_gps)
                       (C1_generator (rt_ins_gps (C1_snapshot 0)) C1_gps 0)\<bar>
   \<and> correct2_tightly 0 C1_primitive C1_generator C1_gps (C1_state 0 0)
       = Some ([Detect_receiver_clock_jump 1, Fixed], C1_state (299792458 / 1000) 1)"
proof -
  have a: "rt_snapshots (C1_state 0 0) = C1_snapshot 0 # [C1_snapshot 0]"
    by (simp add: C1_state_def)
  have b: "\<forall>i<rows (z (C1_generator (rt_ins_gps (C1_snapshot 0)) C1_gps 0)).
      mat_elem (H (C1_generator (rt_ins_gps (C1_snapshot 0)) C1_gps 0)) i (0 + clock_index C1_gps * 2) = - 1
      \<or> mat_elem (H (C1_generator (rt_ins_gps (C1_snapshot 0)) C1_gps 0)) i (0 + clock_index C1_gps * 2) = 0"
    by (simp add: C1_generator_def C1_gps_def rows_def mat_elem_def Let_def less_Suc_eq numeral_3_eq_3)
  have c: "\<forall>ins\<in>insert (rt_self (C1_state 0 0)) (rt_ins_gps ` set (rt_snapshots (C1_state 0 0))).
                clock_index C1_gps < length (m_clock_error ins)"
    by (simp add: C1_state_def C1_snapshot_def C1_ins_def C1_gps_def)
  have d: "(0.9::real) \<le> \<bar>range_residual_mean_ms 0 (clock_index C1_gps)
                       (C1_generator (rt_ins_gps (C1_snapshot 0)) C1_gps 0)\<bar>"
    by (simp add: C1_mu0)
  have sh: "light_speed * (1 / 10 ^ 3) * real_of_int (round (1::real)) = 299792458 / 1000"
    by (simp add: light_speed_def)
  show ?thesis
    using C1_clock_jump[where st="C1_state 0 0" and front="C1_snapshot 0" and rest="[C1_snapshot 0]"
        and generator=C1_generator and gps=C1_gps and P=0 and cp=C1_primitive, OF a b c d] a d
    unfolding C1_mu0 sh C1_mu1
    by (simp add: C1_state_def C1_snapshot_def C1_ins_def C1_gps_def C1_primitive_def
        clock_error_add_def)
qed

section \<open>Real-time compensation with a single snapshot\<close>

lemma map2_add_replicate_zero:
  "length row = c \<Longrightarrow> map2 (+) (replicate c (0::real)) row = row"
  by (induction row arbitrary: c) auto

lemma map2_sub_replicate_zero:
  "length row = c \<Longrightarrow> map2 (-) row (replicate c (0::real)) = row"
  by (induction row arbitrary: c) auto

lemma mat_add_zero_left: "wf_mat r c M \<Longrightarrow> mat_add (mat_zero r c) M = M"
  unfolding wf_mat_def mat_add_def mat_zero_def
  by (induction M arbitrary: r) (auto simp: map2_add_replicate_zero)

lemma mat_sub_zero_right: "wf_mat r c M \<Longrightarrow> mat_sub M (mat_zero r c) = M"
  unfolding wf_mat_def mat_sub_def mat_zero_def
  by (induction M arbitrary: r) (auto simp: map2_sub_replicate_zero)

lemma map_zero_replicate: "map (\<lambda>x. 0::real) row = replicate (length row) 0"
  by (induction row) auto

lemma mat_scale_zero: "wf_mat r c M \<Longrightarrow> mat_scale M 0 = mat_zero r c"
  unfolding wf_mat_def mat_scale_def mat_zero_def
  by (induction M arbitrary: r) (auto simp: map_zero_replicate)

lemma wf_mat_mul: "wf_mat (length M) (columns N) (mat_mul M N)"
  by (simp add: wf_mat_def mat_mul_def list_all_iff)

lemma wf_mat_transpose: "wf_mat (columns M) (length M) (mat_transpose M)"
  by (simp add: wf_mat_def mat_transpose_def mat_col_def list_all_iff)

lemma wf_mat_add: "wf_mat r c M \<Longrightarrow> wf_mat r c N \<Longrightarrow> wf_mat r c (mat_add M N)"
  unfolding wf_mat_def mat_add_def
  by (auto simp: list_all_iff set_zip)

lemma wf_mat_columns: "wf_mat r c M \<Longrightarrow> 0 < r \<Longrightarrow> columns M = c"
  by (cases M) (auto simp: wf_mat_def columns_def)

lemma light_weight_single:
  assumes A: "wf_mat p p (rt_A s)" and G: "wf_mat p p (rt_GQGt s)" and p: "p = columns (H info)"
  shows "compensate_info RT_LIGHT_WEIGHT [s] info
     = info\<lparr>H := mat_mul (H info)
                   (mat_sub (getI p) (mat_scale (rt_A s) (elapsedT_from_last_update s))),
            R := mat_add (R info)
                   (mat_mul (mat_mul (H info) (rt_GQGt s)) (mat_transpose (H info)))\<rparr>"
proof -
  have rz: "rows (mat_zero p p) = p" by (simp add: rows_def mat_zero_def)
  let ?X = "mat_mul (rt_A s) (rt_GQGt s)"
  have wX: "wf_mat p p (mat_add ?X (mat_transpose ?X))"
  proof (cases "p = 0")
    case True
    then show ?thesis using A by (simp add: wf_mat_def mat_add_def mat_mul_def)
  next
    case False
    have lA: "length (rt_A s) = p" using A by (simp add: wf_mat_def)
    have cG: "columns (rt_GQGt s) = p" using wf_mat_columns[OF G] False by simp
    have w1: "wf_mat p p ?X" using wf_mat_mul[of "rt_A s" "rt_GQGt s"] lA cG by simp
    have cX: "columns ?X = p" using wf_mat_columns[OF w1] False by simp
    have lX: "length ?X = p" using w1 by (simp add: wf_mat_def)
    have w2: "wf_mat p p (mat_transpose ?X)" using wf_mat_transpose[of ?X] cX lX by simp
    show ?thesis by (rule wf_mat_add[OF w1 w2])
  qed
  have rA: "rows (rt_A s) = p" using A by (simp add: rows_def wf_mat_def)
  show ?thesis
    using mat_add_zero_left[OF A] mat_add_zero_left[OF G] mat_scale_zero[OF wX]
      mat_sub_zero_right[OF G]
    by (simp add: compensate_info_def Let_def rz rA p[symmetric])
qed

lemma normal_single:
  "compensate_info RT_NORMAL [s] info
     = info\<lparr>H := mat_mul (H info) (rt_Phi_inv s),
            R := mat_add (R info)
                  (mat_mul (mat_mul (mat_mul (H info) (rt_Phi_inv s)) (rt_GQGt s))
                     (mat_transpose (mat_mul (H info) (rt_Phi_inv s))))\<rparr>"
  by (simp add: compensate_info_def Let_def)

lemma C2_snapshot_inverse:
  "mat_mul (mat_add (mat_scale (rt_A C2_snapshot) (elapsedT_from_last_update C2_snapshot))
              (getI 1))
      (rt_Phi_inv C2_snapshot) = getI 1"
  by (simp add: C2_snapshot_def mat_mul_def mat_add_def mat_scale_def getI_def columns_def
      mat_col_def)

lemma C2_normal_value:
  "compensate_info RT_NORMAL [C2_snapshot] C2_info
     = \<lparr>H = [ [100 / 101] ], z = [ [0] ], R = [ [10000 / 10201] ]\<rparr>"
  by (simp add: compensate_info_def C2_snapshot_def C2_info_def mat_mul_def mat_add_def
      mat_scale_def getI_def columns_def mat_col_def mat_transpose_def Let_def)

lemma C2_light_weight_value:
  "compensate_info RT_LIGHT_WEIGHT [C2_snapshot] C2_info
     = \<lparr>H = [ [99 / 100] ], z = [ [0] ], R = [ [1] ]\<rparr>"
  by (simp add: compensate_info_def C2_snapshot_def C2_info_def rows_def mat_zero_def
      mat_sub_def mat_mul_def mat_add_def mat_scale_def getI_def columns_def mat_col_def
      mat_transpose_def Let_def)

text \<open>
  C2 as stated fails: for a one-state filter with \<open>A = 1\<close> and a 10 ms step the snapshot
  stores \<open>Phi^-1 = 100 / 101\<close>; from \<open>H = 1\<close>, \<open>R = 0\<close> and \<open>GQGt = 1\<close> the mode
  \<open>RT_NORMAL\<close> gives \<open>H = 100 / 101\<close>, \<open>R = 10000 / 10201\<close>, while
  \<open>RT_LIGHT_WEIGHT\<close> gives \<open>H = 99 / 100\<close>, \<open>R = 1\<close>.
\<close>

theorem C2_modes_differ_counterexample:
  "H (compensate_info RT_NORMAL [C2_snapshot] C2_info) = [ [100 / 101] ]
   \<and> R (compensate_info RT_NORMAL [C2_snapshot] C2_info) = [ [10000 / 10201] ]
   \<and> H (compensate_info RT_LIGHT_WEIGHT [C2_snapshot] C2_info) = [ [99 / 100] ]
   \<and> R (compensate_info RT_LIGHT_WEIGHT [C2_snapshot] C2_info) = [ [1] ]
   \<and> compensate_info RT_NORMAL [C2_snapshot] C2_info
       \<noteq> compensate_info RT_LIGHT_WEIGHT [C2_snapshot] C2_info"
  by (simp add: C2_normal_value C2_light_weight_value)

text \<open>
  C2 (amended): with exactly one retained snapshot, whose \<open>A\<close> and \<open>GQGt\<close> are square of
  the size of the columns of \<open>H\<close>, \<open>RT_NORMAL\<close> produces \<open>H' = H * Phi^-1\<close> and
  \<open>R + H' * GQGt * H'^T\<close>, and \<open>RT_LIGHT_WEIGHT\<close> produces \<open>H * (I - A * dt)\<close> and
  \<open>R + H * GQGt * H^T\<close> with the original \<open>H\<close>. The two results are identical exactly when
  these two pairs of matrices coincide, which they need not.
\<close>

theorem C2_single_snapshot:
  assumes "wf_mat (columns (H info)) (columns (H info)) (rt_A s)"
    and "wf_mat (columns (H info)) (columns (H info)) (rt_GQGt s)"
  shows "compensate_info RT_NORMAL [s] info
           = info\<lparr>H := mat_mul (H info) (rt_Phi_inv s),
                  R := mat_add (R info)
                        (mat_mul (mat_mul (mat_mul (H info) (rt_Phi_inv s)) (rt_GQGt s))
                           (mat_transpose (mat_mul (H info) (rt_Phi_inv s))))\<rparr>
       \<and> compensate_info RT_LIGHT_WEIGHT [s] info
           = info\<lparr>H := mat_mul (H info)
                         (mat_sub (getI (columns (H info)))
                            (mat_scale (rt_A s) (elapsedT_from_last_update s))),
                  R := mat_add (R info)
                         (mat_mul (mat_mul (H info) (rt_GQGt s)) (mat_transpose (H info)))\<rparr>
       \<and> (compensate_info RT_NORMAL [s] info = compensate_info RT_LIGHT_WEIGHT [s] info
            \<longleftrightarrow> mat_mul (H info) (rt_Phi_inv s)
                  = mat_mul (H info)
                      (mat_sub (getI (columns (H info)))
                         (mat_scale (rt_A s) (elapsedT_from_last_update s)))
                \<and> mat_add (R info)
                     (mat_mul (mat_mul (mat_mul (H info) (rt_Phi_inv s)) (rt_GQGt s))
                        (mat_transpose (mat_mul (H info) (rt_Phi_inv s))))
                  = mat_add (R info)
                      (mat_mul (mat_mul (H info) (rt_GQGt s)) (mat_transpose (H info))))"
proof -
  note n = normal_single[of s info]
  note l = light_weight_single[OF assms refl]
  have "compensate_info RT_NORMAL [s] info = compensate_info RT_LIGHT_WEIGHT [s] info
            \<longleftrightarrow> mat_mul (H info) (rt_Phi_inv s)
                  = mat_mul (H info)
                      (mat_sub (getI (columns (H info)))
                         (mat_scale (rt_A s) (elapsedT_from_last_update s)))
                \<and> mat_add (R info)
                     (mat_mul (mat_mul (mat_mul (H info) (rt_Phi_inv s)) (rt_GQGt s))
                        (mat_transpose (mat_mul (H info) (rt_Phi_inv s))))
                  = mat_add (R info)
                      (mat_mul (mat_mul (H info) (rt_GQGt s)) (mat_transpose (H info)))"
    unfolding n l by (cases info) auto
  then show ?thesis using n l by blast
qed

theorem C2_single_snapshot_witness:
  "wf_mat (columns (H C2_info)) (columns (H C2_info)) (rt_A C2_snapshot)
   \<and> wf_mat (columns (H C2_info)) (columns (H C2_info)) (rt_GQGt C2_snapshot)
   \<and> compensate_info RT_NORMAL [C2_snapshot] C2_info
       = \<lparr>H = [ [100 / 101] ], z = [ [0] ], R = [ [10000 / 10201] ]\<rparr>
   \<and> compensate_info RT_LIGHT_WEIGHT [C2_snapshot] C2_info
       = \<lparr>H = [ [99 / 100] ], z = [ [0] ], R = [ [1] ]\<rparr>"
proof -
  have a: "wf_mat (columns (H C2_info)) (columns (H C2_info)) (rt_A C2_snapshot)"
    by (simp add: wf_mat_def C2_info_def C2_snapshot_def columns_def)
  have b: "wf_mat (columns (H C2_info)) (columns (H C2_info)) (rt_GQGt C2_snapshot)"
    by (simp add: wf_mat_def C2_info_def C2_snapshot_def columns_def)
  show ?thesis
    using C2_single_snapshot[OF a b] a b
    by (simp add: C2_snapshot_def C2_info_def rows_def mat_zero_def
      mat_sub_def mat_mul_def mat_add_def mat_scale_def getI_def columns_def mat_col_def
      mat_transpose_def)
qed

section \<open>Round trip through the scaled-integer form\<close>

lemma sf_values:
  "POWER_2 (- 19) = 1 / 524288" "POWER_2 (-31) = 1 / 2147483648" "POWER_2 4 = 16"
  by (simp_all add: POWER_2_def)

lemma C8_sqrt_A_value: "sqrt_A (Ephemeris_of_raw C8_raw) = 2702000000 / 524288"
  by (simp add: Ephemeris_of_raw_def C8_raw_def raw_blank_def from_unsigned_def sf_values)

lemma C8_sqrt_A_convert: "(CONVERT SF_sqrt_A (2702000000 / 524288) :: 32 word option) = None"
  by (simp add: CONVERT_def s32_cast_def sf_values Let_def)

lemma CONVERT_zero: "sf i > 0 \<Longrightarrow> (CONVERT i 0 :: 'a::len word option) = Some 0"
  by (simp add: CONVERT_def s32_cast_def Let_def)

lemma sf_pos: "sf i > 0"
  by (cases i) (simp_all add: POWER_2_def GPS_SC2RAD_def)

lemma C8_raw_roundtrip_undefined: "raw_of_Ephemeris (Ephemeris_of_raw C8_raw) = None"
  unfolding raw_of_Ephemeris_def C8_sqrt_A_value C8_sqrt_A_convert
  by (simp add: Ephemeris_of_raw_def C8_raw_def raw_blank_def from_unsigned_def from_signed_def
     CONVERT_zero[OF sf_pos])

lemma ucast_word_of_int_32:
  assumes "LENGTH('a::len) \<le> 32"
  shows "(ucast (word_of_int k :: 32 word) :: 'a word) = word_of_int k"
proof -
  have "(ucast (word_of_int k :: 32 word) :: 'a word) = word_of_int (take_bit 32 k)"
    by (simp add: ucast_eq uint_word_of_int_eq)
  also have "\<dots> = word_of_int k"
    using assms by (simp add: word_of_int_eq_iff min_def)
  finally show ?thesis .
qed

lemma half_quot: "s > 0 \<Longrightarrow> (s * k + 0.5 * s) / s = k + 1 / 2" for s k :: real
  by (simp add: field_simps)

lemma s32_cast_half:
  assumes "- (2 ^ 31) \<le> k" "k < 2 ^ 31"
  shows "s32_cast (real_of_int k + 1 / 2) = Some (word_of_int (if 0 \<le> k then k else k + 1))"
proof (cases "0 \<le> k")
  case True
  have "\<lfloor>real_of_int k + 1 / 2\<rfloor> = k" by linarith
  then show ?thesis using True assms by (simp add: s32_cast_def Let_def)
next
  case False
  then have neg: "\<not> (real_of_int k + 1 / 2 \<ge> 0)" by linarith
  have "\<lceil>real_of_int k + 1 / 2\<rceil> = k + 1" by linarith
  then show ?thesis using False neg assms by (simp add: s32_cast_def Let_def)
qed

lemma s32_cast_half_overflow:
  assumes "2 ^ 31 \<le> k"
  shows "s32_cast (real_of_int k + 1 / 2) = None"
proof -
  have "\<lfloor>real_of_int k + 1 / 2\<rfloor> = k" by linarith
  moreover have "(0::int) \<le> k" using assms by (rule order_trans[rotated]) simp
  then have "real_of_int k + 1 / 2 \<ge> 0" by simp
  ultimately show ?thesis using assms by (simp add: s32_cast_def Let_def)
qed

lemma sint_range_32:
  fixes x :: "'a::len word"
  assumes "LENGTH('a) \<le> 32"
  shows "- (2 ^ 31) \<le> sint x \<and> sint x < 2 ^ 31"
proof -
  have a: "- (2 ^ (LENGTH('a) - 1)) \<le> sint x" "sint x < 2 ^ (LENGTH('a) - 1)"
    using sint_ge[of x] sint_lt[of x] by auto
  have "(2::int) ^ (LENGTH('a) - 1) \<le> 2 ^ 31"
    using assms by (intro power_increasing) auto
  then show ?thesis using a by linarith
qed

lemma CONVERT_from_signed:
  fixes x :: "'a::len word"
  assumes "LENGTH('a) \<le> 32"
  shows "(CONVERT i (from_signed i x) :: 'a word option) = Some (adjust x)"
proof -
  have q: "(from_signed i x + 0.5 * sf i) / sf i = real_of_int (sint x) + 1 / 2"
    unfolding from_signed_def using half_quot[OF sf_pos, of i "real_of_int (sint x)"] by simp
  have r: "- (2 ^ 31) \<le> sint x" "sint x < 2 ^ 31" using sint_range_32[OF assms, of x] by auto
  have "(CONVERT i (from_signed i x) :: 'a word option)
      = Some (ucast (word_of_int (if 0 \<le> sint x then sint x else sint x + 1) :: 32 word))"
    unfolding CONVERT_def q s32_cast_half[OF r] by simp
  also have "\<dots> = Some (word_of_int (if 0 \<le> sint x then sint x else sint x + 1))"
    by (simp only: ucast_word_of_int_32[OF assms])
  also have "\<dots> = Some (adjust x)"
    by (simp add: adjust_def)
  finally show ?thesis .
qed

lemma CONVERT_from_unsigned:
  fixes x :: "'a::len word"
  assumes "LENGTH('a) \<le> 32"
  shows "(CONVERT i (from_unsigned i x) :: 'a word option)
     = (if uint x < 2 ^ 31 then Some x else None)"
proof -
  have q: "(from_unsigned i x + 0.5 * sf i) / sf i = real_of_int (uint x) + 1 / 2"
    unfolding from_unsigned_def using half_quot[OF sf_pos, of i "real_of_int (uint x)"] by simp
  show ?thesis
  proof (cases "uint x < 2 ^ 31")
    case True
    have r: "- (2 ^ 31) \<le> uint x" by (rule order_trans[of _ 0]) simp_all
    have "(CONVERT i (from_unsigned i x) :: 'a word option)
      = Some (ucast (word_of_int (uint x) :: 32 word))"
      unfolding CONVERT_def q s32_cast_half[OF r True] by simp
    also have "\<dots> = Some (word_of_int (uint x))"
      by (simp only: ucast_word_of_int_32[OF assms])
    finally show ?thesis using True by simp
  next
    case False
    then have "2 ^ 31 \<le> uint x" by simp
    then have "s32_cast (real_of_int (uint x) + 1 / 2) = None"
      by (rule s32_cast_half_overflow)
    then show ?thesis using False unfolding CONVERT_def q by (simp only: option.map if_False)
  qed
qed

lemma word_of_int_sint_succ: "(word_of_int (sint x + 1) :: 'a::len word) = x + 1"
  by simp

lemma sint_adjust:
  fixes x :: "'a::len word"
  shows "sint (adjust x) = (if 0 \<le> sint x then sint x else sint x + 1)"
proof (cases "0 \<le> sint x")
  case True
  then show ?thesis by (simp add: adjust_def)
next
  case False
  have lo: "- (2 ^ (LENGTH('a) - 1)) \<le> sint x" using sint_ge[of x] by simp
  have "sint x + 1 \<le> 0" using False by simp
  also have "(0::int) < 2 ^ (LENGTH('a) - 1)" by simp
  finally have hi: "sint x + 1 < 2 ^ (LENGTH('a) - 1)" .
  have "sint (word_of_int (sint x + 1) :: 'a word)
      = signed_take_bit (LENGTH('a) - 1) (sint x + 1)"
    by (rule sint_sbintrunc')
  also have "\<dots> = sint x + 1"
    by (rule signed_take_bit_int_eq_self) (use lo hi in linarith)+
  finally have "sint (x + 1) = sint x + 1"
    unfolding word_of_int_sint_succ .
  then show ?thesis using False by (simp only: adjust_def if_False)
qed

lemma fit_interval_of_False: "fit_interval_of False c = 14400"
  by (simp add: fit_interval_of_def)

lemma if_gt: "(k::real) < a \<Longrightarrow> k < b \<Longrightarrow> k < (if P then a else b)"
  by simp

lemma fit_interval_of_True: "18000 < fit_interval_of True c"
  unfolding fit_interval_of_def Let_def if_False simp_thms
  by (intro if_gt) simp_all

lemma fit_interval_flag_roundtrip:
  "(18000 < fit_interval_of flag c) \<longleftrightarrow> flag"
  using fit_interval_of_True[of c] by (cases flag) (simp_all add: fit_interval_of_False)

lemma CONVERT_s8: "(CONVERT i (from_signed i x) :: 8 word option) = Some (adjust x)"
  by (rule CONVERT_from_signed) simp

lemma CONVERT_s16: "(CONVERT i (from_signed i x) :: 16 word option) = Some (adjust x)"
  by (rule CONVERT_from_signed) simp

lemma CONVERT_s32: "(CONVERT i (from_signed i x) :: 32 word option) = Some (adjust x)"
  by (rule CONVERT_from_signed) simp

lemma CONVERT_u16: "(CONVERT i (from_unsigned i x) :: 16 word option) = Some x"
proof -
  have "uint x < 2 ^ 31" by (rule lt2p_lem) simp
  moreover have "(CONVERT i (from_unsigned i x) :: 16 word option)
     = (if uint x < 2 ^ 31 then Some x else None)"
    by (rule CONVERT_from_unsigned) simp
  ultimately show ?thesis by simp
qed

lemma CONVERT_u32: "(CONVERT i (from_unsigned i x) :: 32 word option)
     = (if uint x < 2 ^ 31 then Some x else None)"
  by (rule CONVERT_from_unsigned) simp

text \<open>
  The whole round trip: it is defined exactly when the two unsigned 32-bit fields \<open>e\<close>
  and \<open>sqrt_A\<close> are below \<open>2^31\<close>; then every unsigned field and every non-negative
  signed field comes back unchanged, and every negative signed field comes back one unit
  higher.
\<close>

lemma raw_roundtrip:
  "raw_of_Ephemeris (Ephemeris_of_raw raw)
     = (if uint (r_e raw) < 2 ^ 31 \<and> uint (r_sqrt_A raw) < 2 ^ 31
          then Some (adjust_signed raw) else None)"
  unfolding raw_of_Ephemeris_def Ephemeris_of_raw_def
  by (cases raw)
     (simp add: CONVERT_s8 CONVERT_s16 CONVERT_s32 CONVERT_u16 CONVERT_u32
        fit_interval_flag_roundtrip adjust_signed_def)

text \<open>
  C8: the round trip from the scaled-integer form to \<open>Ephemeris\<close> and back should
  reproduce every field within one least significant bit. For \<open>sqrt_A = 2702000000\<close> the
  floating-point value is \<open>2702000000 / 2^19\<close>; converting back evaluates
  \<open>(s32_t) 2702000000.5\<close>, which is outside the range of \<open>s32_t\<close>, so the field is not
  reproduced.
\<close>

theorem C8_roundtrip_sqrt_A_overflow:
  "sqrt_A (Ephemeris_of_raw C8_raw) = 2702000000 / 524288
   \<and> (sqrt_A (Ephemeris_of_raw C8_raw) + 0.5 * sf SF_sqrt_A) / sf SF_sqrt_A = 5404000001 / 2
   \<and> s32_cast (5404000001 / 2) = None
   \<and> (CONVERT SF_sqrt_A (sqrt_A (Ephemeris_of_raw C8_raw)) :: 32 word option) = None
   \<and> raw_of_Ephemeris (Ephemeris_of_raw C8_raw) = None"
proof -
  have v: "sqrt_A (Ephemeris_of_raw C8_raw) = 2702000000 / 524288"
    by (rule C8_sqrt_A_value)
  have q: "(sqrt_A (Ephemeris_of_raw C8_raw) + 0.5 * sf SF_sqrt_A) / sf SF_sqrt_A
      = 5404000001 / 2"
    unfolding v by (simp add: sf_values)
  have c: "s32_cast (5404000001 / 2) = None"
    by (simp add: s32_cast_def Let_def)
  have k: "(CONVERT SF_sqrt_A (sqrt_A (Ephemeris_of_raw C8_raw)) :: 32 word option) = None"
    unfolding v by (rule C8_sqrt_A_convert)
  show ?thesis using v q c k C8_raw_roundtrip_undefined by simp
qed

end
